theory Spec2Isabelle
  imports Main "HOL-Library.Sublist"
begin

section \<open>JavaScript values\<close>

text \<open>
  The front end keeps JSON data received from the back end in its state and tests it with
  JavaScript truthiness (\<^verbatim>\<open>a || b\<close>, \<^verbatim>\<open>!a\<close>, \<^verbatim>\<open>if (a)\<close>). Values are
  therefore modelled as a datatype of JSON values extended with \<^verbatim>\<open>undefined\<close>, which is
  what reading an absent property gives. Numbers are the integers (identifiers and HTTP status
  codes are the only numbers the code computes with); an object is the list of its members.
  The local identifiers, which the code compares with \<^verbatim>\<open>===\<close>, are numbers; the
  identifiers of the back end are compared with \<open>strict_equal\<close> below.
\<close>

datatype jsval =
    Undefined
  | Null
  | Bool bool
  | Num int
  | Str string
  | Arr "jsval list"
  | Obj "(string \<times> jsval) list"

type_synonym jsobject = "(string \<times> jsval) list"

fun truthy :: "jsval \<Rightarrow> bool" where
  "truthy Undefined = False"
| "truthy Null = False"
| "truthy (Bool b) = b"
| "truthy (Num n) = (n \<noteq> 0)"
| "truthy (Str s) = (s \<noteq> [])"
| "truthy (Arr xs) = True"
| "truthy (Obj kvs) = True"

text \<open>\<^verbatim>\<open>a || b\<close>: the left operand when it is truthy, the right operand otherwise.\<close>

definition js_or :: "jsval \<Rightarrow> jsval \<Rightarrow> jsval" where
  "js_or a b = (if truthy a then a else b)"

text \<open>
  Strict equality \<^verbatim>\<open>a === b\<close>. Two primitive values are strictly equal when they are the
  same value. An array or an object is strictly equal only to itself, and whether two such
  values are the very same object is not visible in their content: it is given from outside,
  as \<open>same_object\<close>.
\<close>

fun primitive :: "jsval \<Rightarrow> bool" where
  "primitive (Arr xs) = False"
| "primitive (Obj kvs) = False"
| "primitive v = True"

definition strict_equal :: "jsval \<Rightarrow> jsval \<Rightarrow> bool \<Rightarrow> bool" where
  "strict_equal a b same_object =
     (if primitive a \<or> primitive b then a = b else same_object \<and> a = b)"

text \<open>Reading a property of an object: \<^verbatim>\<open>undefined\<close> when the object has no such member.\<close>

definition get_prop :: "jsobject \<Rightarrow> string \<Rightarrow> jsval" where
  "get_prop kvs k = (case map_of kvs k of None \<Rightarrow> Undefined | Some v \<Rightarrow> v)"

text \<open>
  \<^verbatim>\<open>{...o, [k]: v}\<close>: an existing member keeps its place and takes the new value, a new
  member is added at the end.
\<close>

fun obj_set :: "(string \<times> 'v) list \<Rightarrow> string \<Rightarrow> 'v \<Rightarrow> (string \<times> 'v) list" where
  "obj_set [] k v = [(k, v)]"
| "obj_set ((k', v') # kvs) k v = (if k' = k then (k, v) # kvs else (k', v') # obj_set kvs k v)"

text \<open>Decimal rendering of numbers, as template literals and string conversion print them.\<close>

definition digit_char :: "nat \<Rightarrow> char" where
  "digit_char d = (''0123456789'' ! d)"

fun string_of_nat :: "nat \<Rightarrow> string" where
  "string_of_nat n =
     (if n < 10 then [digit_char n] else string_of_nat (n div 10) @ [digit_char (n mod 10)])"

fun join_comma :: "string list \<Rightarrow> string" where
  "join_comma [] = []"
| "join_comma [s] = s"
| "join_comma (s # t # ss) = s @ '','' @ join_comma (t # ss)"

text \<open>
  String conversion of a value inside a template literal \<^verbatim>\<open>`${v}`\<close>. An array joins the
  conversions of its elements with commas, \<^verbatim>\<open>null\<close> and \<^verbatim>\<open>undefined\<close> elements
  giving the empty string.
\<close>

fun js_to_string :: "jsval \<Rightarrow> string" where
  "js_to_string Undefined = ''undefined''"
| "js_to_string Null = ''null''"
| "js_to_string (Bool b) = (if b then ''true'' else ''false'')"
| "js_to_string (Num n) =
     (if n < 0 then ''-'' @ string_of_nat (nat (- n)) else string_of_nat (nat n))"
| "js_to_string (Str s) = s"
| "js_to_string (Arr xs) =
     join_comma (map (\<lambda>x. if x = Null \<or> x = Undefined then [] else js_to_string x) xs)"
| "js_to_string (Obj kvs) = ''[object Object]''"

text \<open>
  \<^verbatim>\<open>JSON.stringify\<close> of an object leaves out the members whose value is
  \<^verbatim>\<open>undefined\<close>; the remaining members are sent in the order they were added.
\<close>

definition stringify_members :: "jsobject \<Rightarrow> jsobject" where
  "stringify_members body = filter (\<lambda>kv. snd kv \<noteq> Undefined) body"

section \<open>Requests and responses\<close>

record request =
  http_method :: string
  url :: string
  headers :: "(string \<times> string) list"
  body :: "jsobject option"

text \<open>
  What awaiting \<^verbatim>\<open>fetch\<close> followed by \<^verbatim>\<open>response.json()\<close> can give: a response with
  \<^verbatim>\<open>ok\<close> set and its parsed body, a response with \<^verbatim>\<open>ok\<close> unset and its status, or a
  rejection (network failure, unparsable body) with the \<^verbatim>\<open>message\<close> of the error thrown.
  A parsed body is taken at the shape its endpoint returns: a JSON object, and for the list of
  tests an array of JSON objects.
\<close>

datatype 'a fetched =
    RespOk 'a
  | RespNotOk nat
  | Rejected jsval

definition http_error :: "nat \<Rightarrow> jsval" where
  "http_error st = Str (''HTTP error! status: '' @ string_of_nat st)"

text \<open>
  The body of a \<^verbatim>\<open>try\<close> block around a request: \<open>Inl\<close> carries the
  \<^verbatim>\<open>message\<close> of the error that reaches the \<^verbatim>\<open>catch\<close> clause, \<open>Inr\<close> the parsed body.
\<close>

definition await_json :: "'a fetched \<Rightarrow> jsval + 'a" where
  "await_json r =
     (case r of RespOk v \<Rightarrow> Inr v | RespNotOk st \<Rightarrow> Inl (http_error st) | Rejected m \<Rightarrow> Inl m)"

definition bearer :: "jsval \<Rightarrow> string \<times> string" where
  "bearer token = (''Authorization'', ''Bearer '' @ js_to_string token)"

section \<open>State of the form component\<close>

text \<open>
  One entry of \<^verbatim>\<open>customTests\<close>. The numeric \<^verbatim>\<open>id\<close> of the source is the field
  \<open>local_id\<close>; a member the object does not have reads as \<^verbatim>\<open>undefined\<close>.
\<close>

record test =
  local_id :: nat
  test_id :: jsval
  title :: jsval
  description :: jsval
  prompt :: jsval
  results :: jsval
  testCode :: jsval
  conversation :: jsval
  isProcessing :: bool
  error :: jsval

text \<open>
  The state hooks of \<^verbatim>\<open>FormComponent\<close>, with the token of the authentication context.
  A selected file is represented by its name; \<^verbatim>\<open>error\<close> of the component is \<open>form_error\<close>.
\<close>

record app_state =
  token :: jsval
  modelDocumentation :: string
  files :: "(string \<times> string option) list"
  fileNames :: jsval
  validationId :: jsval
  executionId :: jsval
  isCreating :: bool
  form_error :: string
  status :: string
  loadValidationId :: string
  showLoadForm :: bool
  testToDelete :: "test option"
  customTests :: "test list"
  activeTab :: string
  nextTestId :: nat
  showLoadDialog :: bool
  isGeneratingReport :: bool

definition no_fileNames :: jsval where
  "no_fileNames = Obj [(''documentation'', Str []), (''trainingScript'', Str []),
     (''trainedModel'', Str []), (''trainingDataset'', Str []), (''testDataset'', Str [])]"

definition initial_state :: "jsval \<Rightarrow> app_state" where
  "initial_state tok =
     \<lparr> token = tok, modelDocumentation = [],
       files = [(''documentation'', None), (''trainingScript'', None), (''trainedModel'', None),
                (''trainingDataset'', None), (''testDataset'', None)],
       fileNames = no_fileNames,
       validationId = Null, executionId = Null, isCreating = False, form_error = [],
       status = [], loadValidationId = [], showLoadForm = False, testToDelete = None,
       customTests = [], activeTab = ''main'', nextTestId = 1, showLoadDialog = False,
       isGeneratingReport = False \<rparr>"

section \<open>handleTestSubmit\<close>

definition find_test :: "test list \<Rightarrow> nat \<Rightarrow> test option" where
  "find_test ts testId = List.find (\<lambda>t. local_id t = testId) ts"

text \<open>The three updaters passed to \<^verbatim>\<open>setCustomTests\<close>: before the request, on success, on error.\<close>

definition mark_processing :: "nat \<Rightarrow> test list \<Rightarrow> test list" where
  "mark_processing testId prev =
     map (\<lambda>t. if local_id t = testId then t\<lparr>isProcessing := True, error := Str []\<rparr> else t) prev"

definition store_result :: "nat \<Rightarrow> jsobject \<Rightarrow> test list \<Rightarrow> test list" where
  "store_result testId result prev =
     map (\<lambda>t. if local_id t = testId
              then t\<lparr>test_id := get_prop result ''test_id'',
                     results := get_prop result ''results'',
                     testCode := get_prop result ''testCode'',
                     conversation := get_prop result ''conversation'',
                     isProcessing := False,
                     error := Str []\<rparr>
              else t) prev"

definition store_error :: "nat \<Rightarrow> jsval \<Rightarrow> test list \<Rightarrow> test list" where
  "store_error testId message prev =
     map (\<lambda>t. if local_id t = testId then t\<lparr>error := message, isProcessing := False\<rparr> else t) prev"

definition requestBody :: "jsval \<Rightarrow> test \<Rightarrow> nat \<Rightarrow> jsval \<Rightarrow> jsobject" where
  "requestBody vid t testId followUpMessage =
     [(''validation_id'', vid), (''test_id'', js_or (test_id t) (Num (int testId)))]
     @ (if \<not> truthy (test_id t) then [(''description'', description t)] else [])
     @ (if truthy followUpMessage then [(''follow_up_message'', followUpMessage)] else [])"

definition execute_request :: "jsval \<Rightarrow> jsobject \<Rightarrow> request" where
  "execute_request tok b =
     \<lparr> http_method = ''POST'', url = ''/execute-test'',
       headers = [(''Content-Type'', ''application/json''), bearer tok],
       body = Some (stringify_members b) \<rparr>"

text \<open>
  The handler up to its \<^verbatim>\<open>await fetch\<close>: nothing happens when the test is not found or
  there is no validation; otherwise the test is marked and the request goes out.
\<close>

definition handleTestSubmit_start :: "app_state \<Rightarrow> nat \<Rightarrow> jsval \<Rightarrow> app_state \<times> request option" where
  "handleTestSubmit_start st testId followUpMessage =
     (case find_test (customTests st) testId of
        None \<Rightarrow> (st, None)
      | Some t \<Rightarrow>
          if \<not> truthy (validationId st) then (st, None)
          else (st\<lparr>customTests := mark_processing testId (customTests st)\<rparr>,
                Some (execute_request (token st)
                        (requestBody (validationId st) t testId followUpMessage))))"

text \<open>The handler after the request has settled, applied to the state of that moment.\<close>

definition handleTestSubmit_settle :: "app_state \<Rightarrow> nat \<Rightarrow> jsobject fetched \<Rightarrow> app_state" where
  "handleTestSubmit_settle st testId resp =
     (case await_json resp of
        Inr result \<Rightarrow> st\<lparr>customTests := store_result testId result (customTests st)\<rparr>
      | Inl message \<Rightarrow> st\<lparr>customTests := store_error testId message (customTests st)\<rparr>)"

section \<open>Follow-up callback of a test tab\<close>

text \<open>
  \<^verbatim>\<open>onSubmitFollowUp\<close>, the callback \<^verbatim>\<open>renderTestTab\<close> hands to the conversation of a
  test: it marks the test as processing and calls \<^verbatim>\<open>handleTestSubmit\<close> with the message.
  Both updates are applied one after the other to the list of tests; the mark does not touch
  the fields the request is built from.
\<close>

definition set_processing :: "nat \<Rightarrow> test list \<Rightarrow> test list" where
  "set_processing testId prev =
     map (\<lambda>t. if local_id t = testId then t\<lparr>isProcessing := True\<rparr> else t) prev"

definition onSubmitFollowUp_start :: "app_state \<Rightarrow> nat \<Rightarrow> jsval \<Rightarrow> app_state \<times> request option" where
  "onSubmitFollowUp_start st testId message =
     handleTestSubmit_start (st\<lparr>customTests := set_processing testId (customTests st)\<rparr>) testId message"

text \<open>
  How an awaited call ends. \<^verbatim>\<open>handleTestSubmit\<close> handles every error of its request in
  its own \<^verbatim>\<open>catch\<close> clause and then returns, so the promise of the callback is fulfilled
  whatever the response was; the \<^verbatim>\<open>catch\<close> clause of the callback has nothing to catch.
\<close>

datatype settled = Fulfilled | Thrown jsval

definition onSubmitFollowUp_settle :: "app_state \<Rightarrow> nat \<Rightarrow> jsobject fetched \<Rightarrow> app_state \<times> settled" where
  "onSubmitFollowUp_settle st testId resp = (handleTestSubmit_settle st testId resp, Fulfilled)"

section \<open>The other handlers of the form component\<close>

definition artifact_names :: "string list" where
  "artifact_names =
     [''documentation'', ''trainingScript'', ''trainedModel'', ''trainingDataset'', ''testDataset'']"

text \<open>The own enumerable members an object spread \<^verbatim>\<open>{...v}\<close> copies.\<close>

fun spread :: "jsval \<Rightarrow> jsobject" where
  "spread (Obj kvs) = kvs"
| "spread (Arr xs) = zip (map string_of_nat [0..<length xs]) xs"
| "spread (Str s) = zip (map string_of_nat [0..<length s]) (map (\<lambda>c. Str [c]) s)"
| "spread v = []"

definition handleFileChange :: "app_state \<Rightarrow> string \<Rightarrow> string list \<Rightarrow> app_state" where
  "handleFileChange st name fileList =
     (case fileList of
        [] \<Rightarrow> st
      | f # _ \<Rightarrow> st\<lparr>files := obj_set (files st) name (Some f),
                    fileNames := Obj (obj_set (spread (fileNames st)) name (Str f))\<rparr>)"

definition handleCreateValidation_start :: "app_state \<Rightarrow> app_state \<times> request" where
  "handleCreateValidation_start st =
     (st\<lparr>isCreating := True, form_error := [], status := ''Creating validation...''\<rparr>,
      \<lparr> http_method = ''POST'', url = ''/create-validation'', headers = [bearer (token st)],
        body = Some ((''modelDocumentation'', Str (modelDocumentation st)) #
                     concat (map (\<lambda>(k, f). case f of None \<Rightarrow> [] | Some n \<Rightarrow> [(k, Str n)]) (files st))) \<rparr>)"

definition handleCreateValidation_settle :: "app_state \<Rightarrow> jsobject fetched \<Rightarrow> app_state" where
  "handleCreateValidation_settle st resp =
     (case await_json resp of
        Inr result \<Rightarrow>
          st\<lparr>validationId := get_prop result ''validation_id'',
             executionId := get_prop result ''execution_id'',
             status := ''Validation created successfully'',
             isCreating := False\<rparr>
      | Inl message \<Rightarrow>
          st\<lparr>form_error := ''Error: '' @ js_to_string message,
             status := ''Error creating validation'',
             isCreating := False\<rparr>)"

text \<open>
  \<^verbatim>\<open>handleLoadValidation\<close>. The parsed bodies are taken at the shape the two endpoints
  return: an object for the validation, an array of objects for its tests.
\<close>

definition load_test :: "nat \<Rightarrow> jsobject \<Rightarrow> test" where
  "load_test index testData =
     \<lparr> local_id = index + 1,
       test_id = get_prop testData ''test_id'',
       title = js_or (get_prop testData ''title'')
                 (Str (''Test '' @ js_to_string (get_prop testData ''test_id''))),
       description = js_or (get_prop testData ''description'') (Str []),
       prompt = js_or (get_prop testData ''prompt'') (Str []),
       results = js_or (get_prop testData ''results'') (Arr []),
       testCode = js_or (get_prop testData ''code'') (Str []),
       conversation = js_or (get_prop testData ''conversation'') (Obj [(''messages'', Arr [])]),
       isProcessing = False,
       error = Str [] \<rparr>"

definition loadedTests :: "jsobject list \<Rightarrow> test list" where
  "loadedTests tests = map (\<lambda>(index, testData). load_test index testData) (enumerate 0 tests)"

definition max_id :: "test list \<Rightarrow> nat" where
  "max_id ts = fold max (map local_id ts) 0"

definition handleLoadValidation_start :: "app_state \<Rightarrow> app_state \<times> request" where
  "handleLoadValidation_start st =
     (st\<lparr>isCreating := True, form_error := [], status := ''Loading validation...''\<rparr>,
      \<lparr> http_method = ''GET'', url = ''/load-validation/'' @ loadValidationId st,
        headers = [bearer (token st)], body = None \<rparr>)"

definition tests_request :: "app_state \<Rightarrow> request" where
  "tests_request st =
     \<lparr> http_method = ''GET'', url = ''/tests/'' @ loadValidationId st,
       headers = [bearer (token st)], body = None \<rparr>"

definition load_failed :: "app_state \<Rightarrow> jsval \<Rightarrow> app_state" where
  "load_failed st message =
     st\<lparr>form_error := ''Error: '' @ js_to_string message,
        status := ''Error loading validation'',
        isCreating := False\<rparr>"

definition handleLoadValidation_settle ::
  "app_state \<Rightarrow> jsobject fetched \<Rightarrow> jsobject list fetched \<Rightarrow> app_state" where
  "handleLoadValidation_settle st vresp tresp =
     (case await_json vresp of
        Inl message \<Rightarrow> load_failed st message
      | Inr validationResult \<Rightarrow>
          (case await_json tresp of
             Inl message \<Rightarrow> load_failed st message
           | Inr tests \<Rightarrow>
               (let st1 = st\<lparr>validationId := get_prop validationResult ''validation_id'',
                              executionId := get_prop validationResult ''execution_id'',
                              fileNames := js_or (get_prop validationResult ''files'') no_fileNames\<rparr>;
                    st2 = (if length tests > 0
                           then st1\<lparr>customTests := loadedTests tests,
                                    nextTestId := max_id (loadedTests tests) + 1\<rparr>
                           else st1)
                in st2\<lparr>status := ''Validation loaded successfully'',
                       showLoadForm := False,
                       isCreating := False\<rparr>)))"

text \<open>One whole load with nothing happening in between.\<close>

definition handleLoadValidation ::
  "app_state \<Rightarrow> jsobject fetched \<Rightarrow> jsobject list fetched \<Rightarrow> app_state" where
  "handleLoadValidation st vresp tresp =
     handleLoadValidation_settle (fst (handleLoadValidation_start st)) vresp tresp"

definition addCustomTest :: "app_state \<Rightarrow> app_state" where
  "addCustomTest st =
     (let newTest = \<lparr> local_id = nextTestId st, test_id = Undefined,
                       title = Str (''Custom Test '' @ string_of_nat (nextTestId st)),
                       description = Str [], prompt = Undefined, results = Undefined,
                       testCode = Undefined, conversation = Undefined,
                       isProcessing = False, error = Str [] \<rparr>
      in st\<lparr>customTests := customTests st @ [newTest],
            nextTestId := nextTestId st + 1,
            activeTab := ''test-'' @ string_of_nat (local_id newTest)\<rparr>)"

definition handleTestTitleChange :: "app_state \<Rightarrow> nat \<Rightarrow> string \<Rightarrow> app_state" where
  "handleTestTitleChange st testId v =
     st\<lparr>customTests :=
          map (\<lambda>t. if local_id t = testId then t\<lparr>title := Str v\<rparr> else t) (customTests st)\<rparr>"

definition handleTestDescriptionChange :: "app_state \<Rightarrow> nat \<Rightarrow> string \<Rightarrow> app_state" where
  "handleTestDescriptionChange st testId v =
     st\<lparr>customTests :=
          map (\<lambda>t. if local_id t = testId then t\<lparr>description := Str v\<rparr> else t) (customTests st)\<rparr>"

definition removeCustomTest :: "app_state \<Rightarrow> nat \<Rightarrow> app_state" where
  "removeCustomTest st testId = st\<lparr>testToDelete := find_test (customTests st) testId\<rparr>"

section \<open>Deleting a test\<close>

definition handleDeleteTest_request :: "app_state \<Rightarrow> jsval \<Rightarrow> request option" where
  "handleDeleteTest_request st testId =
     (if \<not> truthy testId then None
      else Some \<lparr> http_method = ''DELETE'',
                  url = ''/test/'' @ js_to_string (validationId st) @ ''/'' @ js_to_string testId,
                  headers = [bearer (token st)], body = None \<rparr>)"

text \<open>
  The body of the response is not read: only \<^verbatim>\<open>response.ok\<close> decides. The filter keeps
  the tests with \<^verbatim>\<open>test.test_id !== testId\<close>. For an identifier that is an array or an
  object this compares objects, not contents; \<open>same\<close> lists the local identifiers of the
  tests shown whose \<^verbatim>\<open>test_id\<close> is the very object that was passed as \<open>testId\<close>.
  For a number or a string \<open>same\<close> plays no part.
\<close>

definition handleDeleteTest_settle ::
  "app_state \<Rightarrow> jsval \<Rightarrow> nat list \<Rightarrow> unit fetched \<Rightarrow> app_state" where
  "handleDeleteTest_settle st testId same resp =
     (case await_json resp of
        Inr _ \<Rightarrow>
          st\<lparr>customTests :=
               filter (\<lambda>t. \<not> strict_equal (test_id t) testId (local_id t \<in> set same))
                 (customTests st),
             activeTab := ''main'',
             status := ''Test deleted successfully''\<rparr>
      | Inl message \<Rightarrow>
          st\<lparr>form_error := ''Error deleting test: '' @ js_to_string message\<rparr>)"

definition confirmDelete_start :: "app_state \<Rightarrow> app_state \<times> request option" where
  "confirmDelete_start st =
     (case testToDelete st of
        None \<Rightarrow> (st, None)
      | Some target \<Rightarrow>
          if truthy (test_id target) then (st, handleDeleteTest_request st (test_id target))
          else (st\<lparr>customTests := filter (\<lambda>t. local_id t \<noteq> local_id target) (customTests st),
                   activeTab := ''main'',
                   testToDelete := None\<rparr>, None))"

definition confirmDelete_settle ::
  "app_state \<Rightarrow> jsval \<Rightarrow> nat list \<Rightarrow> unit fetched \<Rightarrow> app_state" where
  "confirmDelete_settle st testId same resp =
     (handleDeleteTest_settle st testId same resp)\<lparr>testToDelete := None\<rparr>"

definition handleGenerateReport_start :: "app_state \<Rightarrow> app_state \<times> request option" where
  "handleGenerateReport_start st =
     (if \<not> truthy (validationId st) then (st, None)
      else (st\<lparr>isGeneratingReport := True\<rparr>,
            Some \<lparr> http_method = ''POST'',
                   url = ''/generate-report/'' @ js_to_string (validationId st),
                   headers = [bearer (token st)], body = None \<rparr>))"

definition handleGenerateReport_settle :: "app_state \<Rightarrow> unit fetched \<Rightarrow> app_state" where
  "handleGenerateReport_settle st resp =
     (case resp of
        RespOk _ \<Rightarrow> st\<lparr>status := ''Report generated successfully'', isGeneratingReport := False\<rparr>
      | RespNotOk _ \<Rightarrow>
          st\<lparr>form_error := ''Error generating report: Failed to generate report'',
             isGeneratingReport := False\<rparr>
      | Rejected message \<Rightarrow>
          st\<lparr>form_error := ''Error generating report: '' @ js_to_string message,
             isGeneratingReport := False\<rparr>)"

section \<open>What the components render\<close>

text \<open>
  \<^verbatim>\<open>FileInput\<close> passes its \<^verbatim>\<open>disabled\<close> property to both of its controls: the button
  that opens the file chooser and the hidden file input. A control is disabled when the value it
  is given is truthy.
\<close>

record file_input_props =
  p_label :: string
  p_id :: string
  p_name :: string
  p_value :: jsval
  p_disabled :: jsval

record file_input_view =
  input_name :: string
  caption :: string
  button_disabled :: bool
  input_disabled :: bool

definition FileInput :: "file_input_props \<Rightarrow> file_input_view" where
  "FileInput p =
     \<lparr> input_name = p_name p,
       caption = (if truthy (p_value p) then ''Change file'' else ''Choose file''),
       button_disabled = truthy (p_disabled p),
       input_disabled = truthy (p_disabled p) \<rparr>"

definition artifact_labels :: "(string \<times> string) list" where
  "artifact_labels =
     [(''Documentation'', ''documentation''), (''Training Script'', ''trainingScript''),
      (''Trained Model'', ''trainedModel''), (''Training Dataset'', ''trainingDataset''),
      (''Test Dataset'', ''testDataset'')]"

text \<open>The five file inputs of the create-validation form, in the order of the page.\<close>

definition artifact_inputs :: "app_state \<Rightarrow> file_input_view list" where
  "artifact_inputs st =
     map (\<lambda>(lbl, n). FileInput \<lparr> p_label = lbl, p_id = n, p_name = n,
                                   p_value = get_prop (spread (fileNames st)) n,
                                   p_disabled = validationId st \<rparr>) artifact_labels"

definition file_input_enabled :: "app_state \<Rightarrow> string \<Rightarrow> bool" where
  "file_input_enabled st n =
     list_ex (\<lambda>v. input_name v = n \<and> \<not> input_disabled v) (artifact_inputs st)"

definition create_button_disabled :: "app_state \<Rightarrow> bool" where
  "create_button_disabled st = truthy (js_or (Bool (isCreating st)) (validationId st))"

definition new_test_button_shown :: "app_state \<Rightarrow> bool" where
  "new_test_button_shown st = truthy (validationId st)"

definition load_button_disabled :: "app_state \<Rightarrow> bool" where
  "load_button_disabled st = (loadValidationId st = [] \<or> isCreating st)"

definition run_test_disabled :: "test \<Rightarrow> bool" where
  "run_test_disabled t = (isProcessing t \<or> \<not> truthy (description t))"

text \<open>The conversation of a test, with its follow-up form, is rendered once the test has results.\<close>

definition conversation_shown :: "test \<Rightarrow> bool" where
  "conversation_shown t = truthy (results t)"

section \<open>TestConversation\<close>

record conversation_state =
  followUpMessage :: string
  submitting :: bool

text \<open>
  \<^verbatim>\<open>String.prototype.trim\<close> on the characters a \<open>char\<close> can hold: tab, line feed,
  vertical tab, form feed, carriage return, space and no-break space.
\<close>

definition is_space :: "char \<Rightarrow> bool" where
  "is_space c = (c \<in> set [CHR 0x09, CHR 0x0A, CHR 0x0B, CHR 0x0C, CHR 0x0D, CHR 0x20, CHR 0xA0])"

definition trim :: "string \<Rightarrow> string" where
  "trim s = rev (dropWhile is_space (rev (dropWhile is_space s)))"

definition handleSubmit_start :: "conversation_state \<Rightarrow> conversation_state \<times> string option" where
  "handleSubmit_start c =
     (if trim (followUpMessage c) = [] then (c, None)
      else (c\<lparr>submitting := True\<rparr>, Some (trim (followUpMessage c))))"

definition handleSubmit_settle :: "conversation_state \<Rightarrow> settled \<Rightarrow> conversation_state" where
  "handleSubmit_settle c outcome =
     (case outcome of
        Fulfilled \<Rightarrow> c\<lparr>followUpMessage := [], submitting := False\<rparr>
      | Thrown _ \<Rightarrow> c\<lparr>submitting := False\<rparr>)"

definition follow_up_disabled :: "conversation_state \<Rightarrow> bool" where
  "follow_up_disabled c = (trim (followUpMessage c) = [] \<or> submitting c)"

definition textarea_disabled :: "conversation_state \<Rightarrow> bool" where
  "textarea_disabled c = submitting c"

text \<open>
  A whole follow-up submission from the conversation of the test with the given local id:
  \<^verbatim>\<open>handleSubmit\<close> awaits the callback of the form component and then updates its own state.
\<close>

definition submit_follow_up ::
  "app_state \<Rightarrow> conversation_state \<Rightarrow> nat \<Rightarrow> jsobject fetched
     \<Rightarrow> app_state \<times> conversation_state \<times> request option" where
  "submit_follow_up st c testId resp =
     (case handleSubmit_start c of
        (c1, None) \<Rightarrow> (st, c1, None)
      | (c1, Some messageToSend) \<Rightarrow>
          (case onSubmitFollowUp_start st testId (Str messageToSend) of
             (st1, None) \<Rightarrow> (st1, handleSubmit_settle c1 Fulfilled, None)
           | (st1, Some req) \<Rightarrow>
               (case onSubmitFollowUp_settle st1 testId resp of
                  (st2, outcome) \<Rightarrow> (st2, handleSubmit_settle c1 outcome, Some req))))"

section \<open>Sessions\<close>

text \<open>
  What can happen to the form component: an action on a control that is rendered and enabled,
  or the settling of a request. Each event runs against the state of its moment; a request may
  settle at any later time.
\<close>

datatype event =
    FileChange string "string list"
  | CreateValidation
  | CreateValidationSettled "jsobject fetched"
  | LoadDialogOpen
  | LoadDialogCancel
  | LoadIdTyped string
  | LoadValidation
  | LoadValidationSettled "jsobject fetched" "jsobject list fetched"
  | NewTest
  | TitleTyped nat string
  | DescriptionTyped nat string
  | RunTest nat
  | FollowUp nat string
  | TestSettled nat "jsobject fetched"
  | DeleteClicked nat
  | DeleteCancelled
  | DeleteConfirmed
  | DeleteSettled jsval "nat list" "unit fetched"
  | TabSelected string
  | GenerateReport
  | GenerateReportSettled "unit fetched"

fun step :: "app_state \<Rightarrow> event \<Rightarrow> app_state" where
  "step st (FileChange n fileList) =
     (if file_input_enabled st n then handleFileChange st n fileList else st)"
| "step st CreateValidation =
     (if create_button_disabled st then st else fst (handleCreateValidation_start st))"
| "step st (CreateValidationSettled resp) = handleCreateValidation_settle st resp"
| "step st LoadDialogOpen = st\<lparr>showLoadDialog := True\<rparr>"
| "step st LoadDialogCancel = st\<lparr>showLoadDialog := False\<rparr>"
| "step st (LoadIdTyped v) = (if showLoadDialog st then st\<lparr>loadValidationId := v\<rparr> else st)"
| "step st LoadValidation =
     (if showLoadDialog st \<and> \<not> load_button_disabled st
      then fst (handleLoadValidation_start st) else st)"
| "step st (LoadValidationSettled vresp tresp) = handleLoadValidation_settle st vresp tresp"
| "step st NewTest = (if new_test_button_shown st then addCustomTest st else st)"
| "step st (TitleTyped testId v) = handleTestTitleChange st testId v"
| "step st (DescriptionTyped testId v) = handleTestDescriptionChange st testId v"
| "step st (RunTest testId) =
     (case find_test (customTests st) testId of
        None \<Rightarrow> st
      | Some t \<Rightarrow> if run_test_disabled t then st else fst (handleTestSubmit_start st testId Null))"
| "step st (FollowUp testId message) =
     (case find_test (customTests st) testId of
        None \<Rightarrow> st
      | Some t \<Rightarrow>
          if conversation_shown t \<and> trim message \<noteq> []
          then fst (onSubmitFollowUp_start st testId (Str (trim message))) else st)"
| "step st (TestSettled testId resp) = handleTestSubmit_settle st testId resp"
| "step st (DeleteClicked testId) = removeCustomTest st testId"
| "step st DeleteCancelled = st\<lparr>testToDelete := None\<rparr>"
| "step st DeleteConfirmed = fst (confirmDelete_start st)"
| "step st (DeleteSettled testId same resp) = confirmDelete_settle st testId same resp"
| "step st (TabSelected v) = st\<lparr>activeTab := v\<rparr>"
| "step st GenerateReport = fst (handleGenerateReport_start st)"
| "step st (GenerateReportSettled resp) = handleGenerateReport_settle st resp"

definition run :: "app_state \<Rightarrow> event list \<Rightarrow> app_state" where
  "run st evs = foldl step st evs"



text \<open>The states a session has gone through, the last one first.\<close>

fun visited :: "app_state \<Rightarrow> event list \<Rightarrow> app_state list" where
  "visited st [] = [st]"
| "visited st (ev # evs) = visited (step st ev) evs @ [st]"

section \<open>The prompt template of a single test\<close>

text \<open>
  A block scalar of \<^verbatim>\<open>templates.yaml\<close>: its lines without the indentation of the block,
  each ended by a line feed.
\<close>

definition yaml_block :: "string list \<Rightarrow> string" where
  "yaml_block ls = concat (map (\<lambda>l. l @ [CHR 0x0A]) ls)"

definition independent_test_template :: string where
  "independent_test_template = yaml_block
    [''If you have a model {documentation} {code} {train} {test} {pickle}, implement a Python test {test_title}, '',
     ''described as {test_description}.'',
     '''',
     ''I want you to generate a self contained Python script that will be executed using the exec function in another Python process. All the code has to be in one block and has to contain a call to execute the test.'',
     '''',
     ''Please ensure the code meets the following criteria:'',
     '''',
     ''1: The code should create the folder {test_folder} to save all the outputs'',
     ''2: Generate visualizations when possible and save them inside {test_folder}. Add titles to the axis and legends to all of them'',
     ''3: Add all the generated images to the reports with proper explanation of them'',
     ''4: Do proper error handling to not interrupt the execution'',
     ''5: Generate a report with Markdown called report.md, containing the results, visualizations and save it '',
     ''   inside {test_folder}. The report has to explain with detail what the test is doing'',
     ''7: All the code should be inside one single snippet of Python code'',
     ''8: All the code should be between ```python and ```'',
     ''9: Never use ``` inside the code'',
     ''10: Only print errors that have affected the execution, nothing else'',
     ''11: If an error is caught, print the message'']"

text \<open>
  Modelled from the spec: the prompt template engine that renders a template is not among the
  sources. Section 4.1 gives its contract: from a template and a mapping of substitution
  variables it produces a single text, and it fails with \<open>MissingVariable\<close> when a key the
  template needs is absent. A template is read as literal text and placeholders, a placeholder
  being a name in braces as \<^verbatim>\<open>templates.yaml\<close> writes them.
\<close>

datatype piece = Lit string | Var string

text \<open>
  Modelled from the spec: the failures of rendering. The spec names \<open>MissingVariable\<close>; it
  says nothing of a template whose braces do not pair, which the model rejects as malformed
  (no template of the file is).
\<close>

datatype template_error = MalformedTemplate | MissingVariable string

text \<open>
  Modelled from the spec: the scanner of the engine. It reads the template from left to right,
  collecting the current literal and, inside braces, the current name, both in reverse. A
  doubled brace stands for the brace itself, as the list template of the same file uses it.
\<close>

fun scan_template :: "string \<Rightarrow> string \<Rightarrow> string option \<Rightarrow> piece list \<Rightarrow> piece list option" where
  "scan_template [] lit None acc = Some (rev (Lit (rev lit) # acc))"
| "scan_template [] lit (Some f) acc = None"
| "scan_template (c # cs) lit (Some f) acc =
     (if c = CHR ''}'' then scan_template cs [] None (Var (rev f) # Lit (rev lit) # acc)
      else if c = CHR ''{'' then (if f = [] then scan_template cs (c # lit) None acc else None)
      else scan_template cs lit (Some (c # f)) acc)"
| "scan_template (c # cs) lit None acc =
     (if c = CHR ''{'' then scan_template cs lit (Some []) acc
      else if c = CHR ''}'' then
        (case cs of
           [] \<Rightarrow> None
         | d # ds \<Rightarrow> if d = CHR ''}'' then scan_template ds (c # lit) None acc else None)
      else scan_template cs (c # lit) None acc)"

text \<open>Modelled from the spec: a template as the list of its literal texts and placeholders.\<close>

definition parse_template :: "string \<Rightarrow> piece list option" where
  "parse_template t = scan_template t [] None []"

text \<open>
  Modelled from the spec: substitution of the variables, failing at the first placeholder whose
  key the mapping does not have.
\<close>

fun substitute :: "piece list \<Rightarrow> (string \<rightharpoonup> string) \<Rightarrow> template_error + string" where
  "substitute [] vars = Inr []"
| "substitute (Lit s # ps) vars =
     (case substitute ps vars of Inl e \<Rightarrow> Inl e | Inr r \<Rightarrow> Inr (s @ r))"
| "substitute (Var v # ps) vars =
     (case vars v of
        None \<Rightarrow> Inl (MissingVariable v)
      | Some x \<Rightarrow> (case substitute ps vars of Inl e \<Rightarrow> Inl e | Inr r \<Rightarrow> Inr (x @ r)))"

text \<open>
  Modelled from the spec: rendering, from a template and the mapping of its variables to a
  single text.
\<close>

definition render :: "string \<Rightarrow> (string \<rightharpoonup> string) \<Rightarrow> template_error + string" where
  "render t vars =
     (case parse_template t of
        None \<Rightarrow> Inl MalformedTemplate
      | Some ps \<Rightarrow> substitute ps vars)"

section \<open>Example data\<close>

text \<open>
  A session with one validation and two tests: a new test that was never run and a saved test
  with results.
\<close>

definition example_tests :: "test list" where
  "example_tests =
     [\<lparr> local_id = 1, test_id = Undefined, title = Str ''Custom Test 1'',
        description = Str ''check AUC'', prompt = Undefined, results = Undefined,
        testCode = Undefined, conversation = Undefined, isProcessing = False, error = Str [] \<rparr>,
      \<lparr> local_id = 2, test_id = Num 7, title = Str ''Drift'',
        description = Str ''compare distributions'', prompt = Str ''p'',
        results = Arr [Obj [(''filename'', Str ''report.md''), (''content'', Str ''# Drift'')]],
        testCode = Str ''print(1)'', conversation = Obj [(''messages'', Arr [])],
        isProcessing = False, error = Str [] \<rparr>]"

definition example_state :: app_state where
  "example_state = (initial_state (Str ''tok''))\<lparr>validationId := Str ''v1'',
     executionId := Str ''e1'', customTests := example_tests, nextTestId := 3\<rparr>"

text \<open>A stored test whose title is the empty string, and the answer of the tests endpoint with it.\<close>

definition stored_untitled :: jsobject where
  "stored_untitled =
     [(''test_id'', Num 7), (''title'', Str []), (''description'', Str ''compare distributions''),
      (''prompt'', Str ''p''), (''results'', Arr []), (''code'', Str ''print(1)''),
      (''conversation'', Obj [(''messages'', Arr [])])]"

definition stored_validation :: jsobject where
  "stored_validation =
     [(''validation_id'', Str ''v1''), (''execution_id'', Str ''e1''),
      (''files'', Obj [(''documentation'', Str ''model.md'')])]"

text \<open>The example with the saved test chosen for deletion.\<close>

definition deleting_state :: app_state where
  "deleting_state = example_state\<lparr>testToDelete := Some (example_tests ! 1)\<rparr>"

text \<open>
  The example while a request started with the Run Test button of the saved test is in flight,
  and a follow-up form in which a message has been typed.
\<close>

definition running_state :: app_state where
  "running_state = step example_state (RunTest 2)"

definition typed_follow_up :: conversation_state where
  "typed_follow_up = \<lparr> followUpMessage = ''add a ROC plot'', submitting = False \<rparr>"

text \<open>Values for the variables of the single-test template.\<close>

definition example_vars :: "string \<rightharpoonup> string" where
  "example_vars =
     [''documentation'' \<mapsto> ''described as: predicts default risk'',
      ''code'' \<mapsto> ''has been trained with this code: fit(X, y)'',
      ''train'' \<mapsto> ''its training data found at train.csv'',
      ''test'' \<mapsto> ''its test data found at test.csv'',
      ''pickle'' \<mapsto> ''its trained model can be found at model.pkl'',
      ''test_title'' \<mapsto> ''Backtest'',
      ''test_description'' \<mapsto> ''Compare predictions to historical defaults'',
      ''test_folder'' \<mapsto> ''out/test_1'']"

text \<open>
  Two loads from the example: of another validation, and one whose answer carries no
  \<^verbatim>\<open>validation_id\<close>. Neither validation has stored tests.
\<close>

definition other_validation :: jsobject where
  "other_validation =
     [(''validation_id'', Str ''v2''), (''execution_id'', Str ''e2''),
      (''files'', Obj [(''documentation'', Str ''other.md'')])]"

definition load_other :: "event list" where
  "load_other =
     [LoadDialogOpen, LoadIdTyped ''v2'', LoadValidation,
      LoadValidationSettled (RespOk other_validation) (RespOk [])]"

definition load_unnamed :: "event list" where
  "load_unnamed =
     [LoadDialogOpen, LoadIdTyped ''v2'', LoadValidation,
      LoadValidationSettled (RespOk [(''execution_id'', Str ''e2'')]) (RespOk [])]"




text \<open>
  A session in which a new test receives the identifier of a stored test. The validation has
  two stored tests, with the identifiers 1 and 3; loaded, they are the tests with the local
  identifiers 1 and 2. A new test gets the local identifier 3, its request carries that
  number as \<^verbatim>\<open>test_id\<close>, and the answer returns it. Then the new test is deleted.
\<close>

definition stored_one :: jsobject where
  "stored_one = [(''test_id'', Num 1), (''title'', Str ''Backtest''),
                 (''description'', Str ''compare to history'')]"

definition stored_three :: jsobject where
  "stored_three = [(''test_id'', Num 3), (''title'', Str ''Stability''),
                   (''description'', Str ''compare over time'')]"

definition answer_three :: jsobject where
  "answer_three =
     [(''test_id'', Num 3), (''results'', Arr []), (''testCode'', Str ''auc()''),
      (''conversation'', Obj [(''messages'', Arr [])])]"

definition third_test_session :: "event list" where
  "third_test_session =
     [LoadDialogOpen, LoadIdTyped ''v1'', LoadValidation,
      LoadValidationSettled (RespOk stored_validation) (RespOk [stored_one, stored_three]),
      NewTest, DescriptionTyped 3 ''check AUC'', RunTest 3, TestSettled 3 (RespOk answer_three)]"

definition delete_third :: "event list" where
  "delete_third = [DeleteClicked 3, DeleteConfirmed, DeleteSettled (Num 3) [3] (RespOk ())]"

text \<open>
  Three saved tests whose identifiers are two different arrays with the same content and a
  string.
\<close>

definition array_id_tests :: "test list" where
  "array_id_tests =
     map (\<lambda>(n, tid). \<lparr> local_id = n, test_id = tid, title = Str ''t'', description = Str ''d'',
                          prompt = Str [], results = Arr [], testCode = Str [],
                          conversation = Obj [(''messages'', Arr [])], isProcessing = False,
                          error = Str [] \<rparr>)
       [(1, Arr [Num 1]), (2, Arr [Num 1]), (3, Str ''1'')]"

section \<open>Facts about the example\<close>

lemma example_customTests: "customTests example_state = example_tests"
  by (simp add: example_state_def)

lemma example_token: "token example_state = Str ''tok''"
  by (simp add: example_state_def initial_state_def)

lemma example_validationId: "validationId example_state = Str ''v1''"
  by (simp add: example_state_def)

lemma example_first:
  "example_tests ! 0 = \<lparr> local_id = 1, test_id = Undefined, title = Str ''Custom Test 1'',
        description = Str ''check AUC'', prompt = Undefined, results = Undefined,
        testCode = Undefined, conversation = Undefined, isProcessing = False, error = Str [] \<rparr>"
  by (simp add: example_tests_def)

lemma example_find_first: "find_test (customTests example_state) 1 = Some (example_tests ! 0)"
  by (simp add: example_customTests example_tests_def find_test_def)

lemma example_has_validation: "truthy (validationId example_state)"
  by (simp add: example_validationId)

section \<open>The body of an execute-test request\<close>

lemma request_members:
  "get_prop (stringify_members (requestBody v t testId fu)) ''validation_id'' = v"
  "get_prop (stringify_members (requestBody v t testId fu)) ''test_id''
     = (if truthy (test_id t) then test_id t else Num (int testId))"
  "get_prop (stringify_members (requestBody v t testId fu)) ''description''
     = (if truthy (test_id t) then Undefined else description t)"
  "get_prop (stringify_members (requestBody v t testId fu)) ''follow_up_message''
     = (if truthy fu then fu else Undefined)"
  by (simp_all add: stringify_members_def requestBody_def get_prop_def js_or_def)

lemma start_request:
  assumes "find_test (customTests st) testId = Some t" and "truthy (validationId st)"
  shows "snd (handleTestSubmit_start st testId fu)
           = Some (execute_request (token st) (requestBody (validationId st) t testId fu))"
    and "customTests (fst (handleTestSubmit_start st testId fu))
           = mark_processing testId (customTests st)"
  using assms by (simp_all add: handleTestSubmit_start_def)

text \<open>
  Claim C1, as the code has it. Whenever \<^verbatim>\<open>handleTestSubmit\<close> finds the test and a
  validation exists, it posts to \<^verbatim>\<open>/execute-test\<close> a body that always carries
  \<^verbatim>\<open>validation_id\<close> and \<^verbatim>\<open>test_id\<close>: the identifier the back end assigned when the
  test has one, the local identifier otherwise. The description is a member exactly when the
  test has no identifier of the back end, and \<^verbatim>\<open>follow_up_message\<close> is a member exactly when
  a non-empty follow-up message was passed. (A member that reads as \<^verbatim>\<open>undefined\<close> is not
  part of the JSON text.)
\<close>

theorem execute_request_body:
  assumes "find_test (customTests st) testId = Some t" and "truthy (validationId st)"
  shows "\<exists>b. snd (handleTestSubmit_start st testId fu)
            = Some \<lparr> http_method = ''POST'', url = ''/execute-test'',
                     headers = [(''Content-Type'', ''application/json''), bearer (token st)],
                     body = Some b \<rparr>
         \<and> get_prop b ''validation_id'' = validationId st
         \<and> get_prop b ''test_id'' = (if truthy (test_id t) then test_id t else Num (int testId))
         \<and> get_prop b ''test_id'' \<noteq> Undefined
         \<and> get_prop b ''description'' = (if truthy (test_id t) then Undefined else description t)
         \<and> get_prop b ''follow_up_message'' = (if truthy fu then fu else Undefined)"
proof -
  let ?b = "stringify_members (requestBody (validationId st) t testId fu)"
  have "snd (handleTestSubmit_start st testId fu)
          = Some \<lparr> http_method = ''POST'', url = ''/execute-test'',
                   headers = [(''Content-Type'', ''application/json''), bearer (token st)],
                   body = Some ?b \<rparr>"
    by (simp add: start_request(1) [OF assms] execute_request_def)
  moreover have "get_prop ?b ''test_id'' \<noteq> Undefined"
    by (cases "test_id t") (simp_all add: request_members)
  ultimately show ?thesis
    by (intro exI [of _ ?b]) (simp add: request_members)
qed

theorem execute_request_body_witness:
  "\<exists>b. snd (handleTestSubmit_start example_state 1 Null)
            = Some \<lparr> http_method = ''POST'', url = ''/execute-test'',
                     headers = [(''Content-Type'', ''application/json''), bearer (Str ''tok'')],
                     body = Some b \<rparr>
       \<and> get_prop b ''validation_id'' = Str ''v1''
       \<and> get_prop b ''test_id'' = Num 1
       \<and> get_prop b ''description'' = Str ''check AUC''
       \<and> get_prop b ''follow_up_message'' = Undefined"
proof -
  from execute_request_body [OF example_find_first example_has_validation, of Null]
  obtain b where
    "snd (handleTestSubmit_start example_state 1 Null)
       = Some \<lparr> http_method = ''POST'', url = ''/execute-test'',
                headers = [(''Content-Type'', ''application/json''), bearer (token example_state)],
                body = Some b \<rparr>"
    "get_prop b ''validation_id'' = validationId example_state"
    "get_prop b ''test_id''
       = (if truthy (test_id (example_tests ! 0)) then test_id (example_tests ! 0) else Num (int 1))"
    "get_prop b ''description''
       = (if truthy (test_id (example_tests ! 0)) then Undefined
          else description (example_tests ! 0))"
    "get_prop b ''follow_up_message'' = (if truthy Null then Null else Undefined)"
    by blast
  then show ?thesis
    by (simp add: example_first example_token example_validationId)
qed

text \<open>
  Claim C1 as it is stated fails. Running the new test of the example, which has no identifier
  of the back end, sends a body with \<^verbatim>\<open>test_id\<close> (the local identifier 1) next to the
  description; running the saved test again with the Run Test button sends a body with
  \<^verbatim>\<open>test_id\<close> and neither description nor follow-up message.
\<close>

theorem execute_request_counterexample:
  "snd (handleTestSubmit_start example_state 1 Null)
     = Some \<lparr> http_method = ''POST'', url = ''/execute-test'',
              headers = [(''Content-Type'', ''application/json''), (''Authorization'', ''Bearer tok'')],
              body = Some [(''validation_id'', Str ''v1''), (''test_id'', Num 1),
                           (''description'', Str ''check AUC'')] \<rparr>
   \<and> \<not> run_test_disabled (example_tests ! 1)
   \<and> snd (handleTestSubmit_start example_state 2 Null)
     = Some \<lparr> http_method = ''POST'', url = ''/execute-test'',
              headers = [(''Content-Type'', ''application/json''), (''Authorization'', ''Bearer tok'')],
              body = Some [(''validation_id'', Str ''v1''), (''test_id'', Num 7)] \<rparr>"
  by (simp add: handleTestSubmit_start_def example_customTests example_token example_validationId
        example_tests_def find_test_def execute_request_def requestBody_def stringify_members_def
        js_or_def bearer_def run_test_disabled_def)

section \<open>The three updates of a submission\<close>

lemma await_json_cases:
  "await_json (RespOk v) = Inr v"
  "await_json (RespNotOk code) = Inl (http_error code)"
  "await_json (Rejected e) = Inl e"
  by (simp_all add: await_json_def)

lemma settle_failure:
  "await_json resp = Inl m \<Longrightarrow>
   handleTestSubmit_settle st testId resp = st\<lparr>customTests := store_error testId m (customTests st)\<rparr>"
  by (simp add: handleTestSubmit_settle_def)

lemma settle_success:
  "handleTestSubmit_settle st testId (RespOk r)
     = st\<lparr>customTests := store_result testId r (customTests st)\<rparr>"
  by (simp add: handleTestSubmit_settle_def await_json_def)

lemma start_customTests:
  "customTests (fst (handleTestSubmit_start st testId fu)) = customTests st
   \<or> customTests (fst (handleTestSubmit_start st testId fu)) = mark_processing testId (customTests st)"
  by (simp add: handleTestSubmit_start_def split: option.split)

lemma store_error_keeps:
  "map results (store_error testId m prev) = map results prev"
  "map testCode (store_error testId m prev) = map testCode prev"
  "map conversation (store_error testId m prev) = map conversation prev"
  by (simp_all add: store_error_def)

lemma mark_processing_keeps:
  "map results (mark_processing testId prev) = map results prev"
  "map testCode (mark_processing testId prev) = map testCode prev"
  "map conversation (mark_processing testId prev) = map conversation prev"
  by (simp_all add: mark_processing_def)

lemma set_processing_keeps:
  "map results (set_processing testId prev) = map results prev"
  "map testCode (set_processing testId prev) = map testCode prev"
  "map conversation (set_processing testId prev) = map conversation prev"
  by (simp_all add: set_processing_def)

lemma store_error_after_follow_up_mark:
  "store_error testId m (mark_processing testId (set_processing testId prev))
     = map (\<lambda>t. if local_id t = testId then t\<lparr>error := m, isProcessing := False\<rparr> else t) prev"
  by (simp add: store_error_def mark_processing_def set_processing_def)

lemma store_error_after_mark:
  "store_error testId m (mark_processing testId prev)
     = map (\<lambda>t. if local_id t = testId then t\<lparr>error := m, isProcessing := False\<rparr> else t) prev"
  by (simp add: store_error_def mark_processing_def)






lemma update_ids:
  "map local_id (mark_processing testId prev) = map local_id prev"
  "map local_id (set_processing testId prev) = map local_id prev"
  "map local_id (store_result testId r prev) = map local_id prev"
  "map local_id (store_error testId m prev) = map local_id prev"
  by (simp_all add: mark_processing_def set_processing_def store_result_def store_error_def)


lemma follow_up_start_customTests:
  "customTests (fst (onSubmitFollowUp_start st testId fu)) = set_processing testId (customTests st)
   \<or> customTests (fst (onSubmitFollowUp_start st testId fu))
       = mark_processing testId (set_processing testId (customTests st))"
  by (simp add: onSubmitFollowUp_start_def handleTestSubmit_start_def split: option.split)

section \<open>A failed execution\<close>

text \<open>
  Claim C2. Let an execute-test request fail: the response is not ok or an error is thrown,
  and \<open>m\<close> is the message that reaches the \<^verbatim>\<open>catch\<close> clause. Whatever the state is when
  the request settles, the results, the test code and the conversation of every test are the
  same after the error update as before it, and they are the same after the update that
  precedes the request, from the Run Test button and from a follow-up alike. For a request that
  was sent and settles with nothing in between, the tests afterwards are the tests from before
  the submission with, for the submitted test, the error set to \<open>m\<close> and the processing flag
  cleared, and nothing else changed.
\<close>

theorem failed_execution_keeps_last_good:
  assumes "await_json resp = Inl m"
  shows "map results (customTests (handleTestSubmit_settle st testId resp))
           = map results (customTests st)
       \<and> map testCode (customTests (handleTestSubmit_settle st testId resp))
           = map testCode (customTests st)
       \<and> map conversation (customTests (handleTestSubmit_settle st testId resp))
           = map conversation (customTests st)
       \<and> map results (customTests (fst (handleTestSubmit_start st testId fu)))
           = map results (customTests st)
       \<and> map testCode (customTests (fst (handleTestSubmit_start st testId fu)))
           = map testCode (customTests st)
       \<and> map conversation (customTests (fst (handleTestSubmit_start st testId fu)))
           = map conversation (customTests st)
       \<and> map results (customTests (fst (onSubmitFollowUp_start st testId fu)))
           = map results (customTests st)
       \<and> map testCode (customTests (fst (onSubmitFollowUp_start st testId fu)))
           = map testCode (customTests st)
       \<and> map conversation (customTests (fst (onSubmitFollowUp_start st testId fu)))
           = map conversation (customTests st)
       \<and> (snd (handleTestSubmit_start st testId fu) \<noteq> None \<longrightarrow>
            customTests (handleTestSubmit_settle (fst (handleTestSubmit_start st testId fu)) testId resp)
              = map (\<lambda>t. if local_id t = testId then t\<lparr>error := m, isProcessing := False\<rparr> else t)
                  (customTests st))
       \<and> (snd (onSubmitFollowUp_start st testId fu) \<noteq> None \<longrightarrow>
            customTests (handleTestSubmit_settle (fst (onSubmitFollowUp_start st testId fu)) testId resp)
              = map (\<lambda>t. if local_id t = testId then t\<lparr>error := m, isProcessing := False\<rparr> else t)
                  (customTests st))"
proof -
  have settle: "\<And>s. customTests (handleTestSubmit_settle s testId resp)
                  = store_error testId m (customTests s)"
    by (simp add: settle_failure [OF assms])
  have sent: "\<And>s. snd (handleTestSubmit_start s testId fu) \<noteq> None \<Longrightarrow>
              customTests (fst (handleTestSubmit_start s testId fu))
                = mark_processing testId (customTests s)"
    by (simp add: handleTestSubmit_start_def split: option.splits if_splits)
  have a: "map results (customTests (handleTestSubmit_settle st testId resp))
             = map results (customTests st)
       \<and> map testCode (customTests (handleTestSubmit_settle st testId resp))
             = map testCode (customTests st)
       \<and> map conversation (customTests (handleTestSubmit_settle st testId resp))
             = map conversation (customTests st)"
    by (simp add: settle store_error_keeps)
  have b: "map results (customTests (fst (handleTestSubmit_start st testId fu)))
             = map results (customTests st)
       \<and> map testCode (customTests (fst (handleTestSubmit_start st testId fu)))
             = map testCode (customTests st)
       \<and> map conversation (customTests (fst (handleTestSubmit_start st testId fu)))
             = map conversation (customTests st)"
    using start_customTests [of st testId fu] by (auto simp: mark_processing_keeps)
  have c: "map results (customTests (fst (onSubmitFollowUp_start st testId fu)))
             = map results (customTests st)
       \<and> map testCode (customTests (fst (onSubmitFollowUp_start st testId fu)))
             = map testCode (customTests st)
       \<and> map conversation (customTests (fst (onSubmitFollowUp_start st testId fu)))
             = map conversation (customTests st)"
    using follow_up_start_customTests [of st testId fu]
    by (auto simp: mark_processing_keeps set_processing_keeps)
  have d: "snd (handleTestSubmit_start st testId fu) \<noteq> None \<longrightarrow>
            customTests (handleTestSubmit_settle (fst (handleTestSubmit_start st testId fu)) testId resp)
              = map (\<lambda>t. if local_id t = testId then t\<lparr>error := m, isProcessing := False\<rparr> else t)
                  (customTests st)"
    by (simp add: settle sent store_error_after_mark)
  have e: "snd (onSubmitFollowUp_start st testId fu) \<noteq> None \<longrightarrow>
            customTests (handleTestSubmit_settle (fst (onSubmitFollowUp_start st testId fu)) testId resp)
              = map (\<lambda>t. if local_id t = testId then t\<lparr>error := m, isProcessing := False\<rparr> else t)
                  (customTests st)"
    using sent [of "st\<lparr>customTests := set_processing testId (customTests st)\<rparr>"]
    by (simp add: settle onSubmitFollowUp_start_def store_error_after_follow_up_mark)
  from a b c d e show ?thesis by blast
qed

theorem failed_execution_keeps_last_good_witness:
  "await_json (RespNotOk 500 :: jsobject fetched) = Inl (Str ''HTTP error! status: 500'')
   \<and> customTests (handleTestSubmit_settle (fst (handleTestSubmit_start example_state 2 Null)) 2
                    (RespNotOk 500))
       = [example_tests ! 0, (example_tests ! 1)\<lparr>error := Str ''HTTP error! status: 500''\<rparr>]"
proof -
  have failed: "await_json (RespNotOk 500 :: jsobject fetched) = Inl (Str ''HTTP error! status: 500'')"
    by (simp add: await_json_def http_error_def digit_char_def)
  have sent: "snd (handleTestSubmit_start example_state 2 Null) \<noteq> None"
    by (simp add: handleTestSubmit_start_def example_customTests example_validationId
          example_tests_def find_test_def)
  from failed_execution_keeps_last_good [OF failed, of example_state 2 Null] sent
  have "customTests (handleTestSubmit_settle (fst (handleTestSubmit_start example_state 2 Null)) 2
                      (RespNotOk 500))
          = map (\<lambda>t. if local_id t = 2
                      then t\<lparr>error := Str ''HTTP error! status: 500'', isProcessing := False\<rparr>
                      else t) (customTests example_state)"
    by blast
  then show ?thesis
    using failed by (simp add: example_customTests example_tests_def)
qed

section \<open>Other tests during a submission\<close>









lemma filter_beside_twice:
  "filter (\<lambda>t. local_id t \<noteq> a) (filter (\<lambda>t. local_id t \<noteq> a) ts)
     = filter (\<lambda>t. local_id t \<noteq> a) ts"
  by simp







section \<open>Local identifiers\<close>

lemma fold_max_ge: "a \<le> fold max xs (a::nat)"
proof (induction xs arbitrary: a)
  case Nil
  show ?case by simp
next
  case (Cons x xs)
  have "a \<le> max x a" by simp
  also have "max x a \<le> fold max xs (max x a)" by (rule Cons.IH)
  finally show ?case by simp
qed

lemma fold_max_member: "x \<in> set xs \<Longrightarrow> x \<le> fold max xs (a::nat)"
proof (induction xs arbitrary: a)
  case Nil
  then show ?case by simp
next
  case (Cons y ys)
  show ?case
  proof (cases "x = y")
    case True
    have "x \<le> max y a" using True by simp
    also have "max y a \<le> fold max ys (max y a)" by (rule fold_max_ge)
    finally show ?thesis by simp
  next
    case False
    with Cons.prems have "x \<in> set ys" by simp
    then show ?thesis using Cons.IH by simp
  qed
qed

lemma below_max_id: "t \<in> set ts \<Longrightarrow> local_id t \<le> max_id ts"
  unfolding max_id_def by (rule fold_max_member) simp

lemma loadedTests_ids: "map local_id (loadedTests tests) = map Suc [0..<length tests]"
proof -
  have "map local_id (loadedTests tests) = map (Suc \<circ> fst) (enumerate 0 tests)"
    by (simp add: loadedTests_def load_test_def case_prod_beta comp_def)
  also have "\<dots> = map Suc (map fst (enumerate 0 tests))"
    by (simp only: map_map)
  also have "\<dots> = map Suc [0..<length tests]"
    by (simp only: map_fst_enumerate) simp
  finally show ?thesis .
qed

lemma same_ids:
  assumes "map local_id ts' = map local_id ts"
  shows "distinct (map local_id ts') = distinct (map local_id ts)"
    and "(\<forall>t\<in>set ts'. local_id t < n) = (\<forall>t\<in>set ts. local_id t < n)"
proof -
  show "distinct (map local_id ts') = distinct (map local_id ts)"
    using assms by simp
  have "(\<forall>t\<in>set ts'. local_id t < n) = (\<forall>x\<in>set (map local_id ts'). x < n)"
    by simp
  also have "\<dots> = (\<forall>x\<in>set (map local_id ts). x < n)"
    using assms by simp
  also have "\<dots> = (\<forall>t\<in>set ts. local_id t < n)"
    by simp
  finally show "(\<forall>t\<in>set ts'. local_id t < n) = (\<forall>t\<in>set ts. local_id t < n)" .
qed

lemma loadedTests_distinct: "distinct (map local_id (loadedTests tests))"
  by (simp add: loadedTests_ids distinct_map)

text \<open>
  The invariant of the identifiers: they are pairwise different and all below the next one.
\<close>

lemma fresh_add:
  assumes "distinct (map local_id (customTests st))"
    and "\<forall>t\<in>set (customTests st). local_id t < nextTestId st"
  shows "distinct (map local_id (customTests (addCustomTest st)))"
    and "\<forall>t\<in>set (customTests (addCustomTest st)). local_id t < nextTestId (addCustomTest st)"
  using assms by (auto simp: addCustomTest_def Let_def)

lemma fresh_load:
  assumes "distinct (map local_id (customTests st))"
    and "\<forall>t\<in>set (customTests st). local_id t < nextTestId st"
  shows "distinct (map local_id (customTests (handleLoadValidation_settle st vresp tresp)))"
    and "\<forall>t\<in>set (customTests (handleLoadValidation_settle st vresp tresp)).
           local_id t < nextTestId (handleLoadValidation_settle st vresp tresp)"
  using assms
  by (auto simp: handleLoadValidation_settle_def load_failed_def Let_def loadedTests_distinct
        less_Suc_eq_le below_max_id split: sum.splits)

lemma fresh_submit_start:
  "map local_id (customTests (fst (handleTestSubmit_start st testId fu)))
     = map local_id (customTests st)"
  "nextTestId (fst (handleTestSubmit_start st testId fu)) = nextTestId st"
  by (simp_all add: handleTestSubmit_start_def update_ids split: option.split)

lemma fresh_follow_up_start:
  "map local_id (customTests (fst (onSubmitFollowUp_start st testId fu)))
     = map local_id (customTests st)"
  "nextTestId (fst (onSubmitFollowUp_start st testId fu)) = nextTestId st"
  by (simp_all add: onSubmitFollowUp_start_def fresh_submit_start update_ids)

lemma fresh_submit_settle:
  "map local_id (customTests (handleTestSubmit_settle st testId resp))
     = map local_id (customTests st)"
  "nextTestId (handleTestSubmit_settle st testId resp) = nextTestId st"
  by (simp_all add: handleTestSubmit_settle_def update_ids split: sum.split)

lemma fresh_edit:
  "map local_id (customTests (handleTestTitleChange st testId v)) = map local_id (customTests st)"
  "nextTestId (handleTestTitleChange st testId v) = nextTestId st"
  "map local_id (customTests (handleTestDescriptionChange st testId v))
     = map local_id (customTests st)"
  "nextTestId (handleTestDescriptionChange st testId v) = nextTestId st"
  by (simp_all add: handleTestTitleChange_def handleTestDescriptionChange_def)

lemma fresh_confirm:
  assumes "distinct (map local_id (customTests st))"
    and "\<forall>t\<in>set (customTests st). local_id t < nextTestId st"
  shows "distinct (map local_id (customTests (fst (confirmDelete_start st))))"
    and "\<forall>t\<in>set (customTests (fst (confirmDelete_start st))).
           local_id t < nextTestId (fst (confirmDelete_start st))"
    and "distinct (map local_id (customTests (confirmDelete_settle st testId same resp)))"
    and "\<forall>t\<in>set (customTests (confirmDelete_settle st testId same resp)).
           local_id t < nextTestId (confirmDelete_settle st testId same resp)"
  using assms
  by (auto simp: confirmDelete_start_def confirmDelete_settle_def handleDeleteTest_settle_def
        distinct_map_filter split: option.splits sum.splits)

lemma fresh_others:
  "customTests (handleFileChange st n fl) = customTests st"
  "nextTestId (handleFileChange st n fl) = nextTestId st"
  "customTests (fst (handleCreateValidation_start st)) = customTests st"
  "nextTestId (fst (handleCreateValidation_start st)) = nextTestId st"
  "customTests (handleCreateValidation_settle st resp) = customTests st"
  "nextTestId (handleCreateValidation_settle st resp) = nextTestId st"
  "customTests (fst (handleLoadValidation_start st)) = customTests st"
  "nextTestId (fst (handleLoadValidation_start st)) = nextTestId st"
  "customTests (removeCustomTest st testId) = customTests st"
  "nextTestId (removeCustomTest st testId) = nextTestId st"
  "customTests (fst (handleGenerateReport_start st)) = customTests st"
  "nextTestId (fst (handleGenerateReport_start st)) = nextTestId st"
  "customTests (handleGenerateReport_settle st r) = customTests st"
  "nextTestId (handleGenerateReport_settle st r) = nextTestId st"
  by (simp_all add: handleFileChange_def handleCreateValidation_start_def
        handleCreateValidation_settle_def handleLoadValidation_start_def removeCustomTest_def
        handleGenerateReport_start_def handleGenerateReport_settle_def
        split: list.split sum.split fetched.split)

lemma fresh_step:
  assumes "distinct (map local_id (customTests st))"
    and "\<forall>t\<in>set (customTests st). local_id t < nextTestId st"
  shows "distinct (map local_id (customTests (step st ev)))
       \<and> (\<forall>t\<in>set (customTests (step st ev)). local_id t < nextTestId (step st ev))"
proof (cases ev)
  case NewTest
  then show ?thesis using fresh_add [OF assms] assms by simp
next
  case (LoadValidationSettled vresp tresp)
  then show ?thesis using fresh_load [OF assms] by simp
next
  case DeleteConfirmed
  then show ?thesis using fresh_confirm [OF assms] by simp
next
  case (DeleteSettled testId same resp)
  then show ?thesis using fresh_confirm [OF assms] by simp
next
  case (RunTest testId)
  then show ?thesis
    using assms same_ids [OF fresh_submit_start(1) [of st testId Null]]
    by (simp add: fresh_submit_start(2) split: option.split)
next
  case (FollowUp testId message)
  then show ?thesis
    using assms same_ids [OF fresh_follow_up_start(1) [of st testId "Str (trim message)"]]
    by (simp add: fresh_follow_up_start(2) split: option.split)
next
  case (TestSettled testId resp)
  then show ?thesis
    using assms same_ids [OF fresh_submit_settle(1) [of st testId resp]]
    by (simp add: fresh_submit_settle(2))
next
  case (TitleTyped testId v)
  then show ?thesis
    using assms same_ids [OF fresh_edit(1) [of st testId v]]
    by (simp add: fresh_edit(2))
next
  case (DescriptionTyped testId v)
  then show ?thesis
    using assms same_ids [OF fresh_edit(3) [of st testId v]]
    by (simp add: fresh_edit(4))
qed (use assms in \<open>simp_all add: fresh_others\<close>)

lemma fresh_run:
  assumes "distinct (map local_id (customTests st))"
    and "\<forall>t\<in>set (customTests st). local_id t < nextTestId st"
  shows "distinct (map local_id (customTests (run st evs)))
       \<and> (\<forall>t\<in>set (customTests (run st evs)). local_id t < nextTestId (run st evs))"
  using assms unfolding run_def
proof (induction evs arbitrary: st)
  case Nil
  then show ?case by simp
next
  case (Cons ev evs)
  from fresh_step [OF Cons.prems, of ev] show ?case
    using Cons.IH [of "step st ev"] by simp
qed

text \<open>
  Claim C9. \<^verbatim>\<open>addCustomTest\<close> gives the new test the current \<^verbatim>\<open>nextTestId\<close> and
  increments it; a load that brings tests numbers them from 1 and sets \<^verbatim>\<open>nextTestId\<close>
  above the largest of them; and in every state a session can reach from the initial state, by
  any sequence of events, the local identifiers of the tests are pairwise different.
\<close>

theorem local_ids_unique:
  "map local_id (customTests (addCustomTest st)) = map local_id (customTests st) @ [nextTestId st]
   \<and> nextTestId (addCustomTest st) = nextTestId st + 1
   \<and> (tests \<noteq> [] \<longrightarrow>
        map local_id (customTests (handleLoadValidation_settle st (RespOk v) (RespOk tests)))
          = map Suc [0..<length tests]
        \<and> max_id (customTests (handleLoadValidation_settle st (RespOk v) (RespOk tests)))
          < nextTestId (handleLoadValidation_settle st (RespOk v) (RespOk tests)))
   \<and> distinct (map local_id (customTests (run (initial_state tok) evs)))"
proof -
  have add: "map local_id (customTests (addCustomTest st))
               = map local_id (customTests st) @ [nextTestId st]
             \<and> nextTestId (addCustomTest st) = nextTestId st + 1"
    by (simp add: addCustomTest_def Let_def)
  have load: "tests \<noteq> [] \<longrightarrow>
        map local_id (customTests (handleLoadValidation_settle st (RespOk v) (RespOk tests)))
          = map Suc [0..<length tests]
        \<and> max_id (customTests (handleLoadValidation_settle st (RespOk v) (RespOk tests)))
          < nextTestId (handleLoadValidation_settle st (RespOk v) (RespOk tests))"
    by (simp add: handleLoadValidation_settle_def await_json_def Let_def loadedTests_ids)
  have "distinct (map local_id (customTests (initial_state tok)))"
    and "\<forall>t\<in>set (customTests (initial_state tok)). local_id t < nextTestId (initial_state tok)"
    by (simp_all add: initial_state_def)
  from fresh_run [OF this, of evs]
  have "distinct (map local_id (customTests (run (initial_state tok) evs)))"
    by simp
  with add load show ?thesis by simp
qed

theorem local_ids_unique_witness:
  "[[(''test_id'', Num 7)], [(''test_id'', Num 9)]] \<noteq> ([] :: jsobject list)
   \<and> map local_id (customTests (handleLoadValidation_settle example_state (RespOk [])
        (RespOk [[(''test_id'', Num 7)], [(''test_id'', Num 9)]]))) = [1, 2]
   \<and> distinct (map local_id (customTests (run (initial_state (Str ''tok''))
        [CreateValidation, CreateValidationSettled (RespOk [(''validation_id'', Str ''v1'')]),
         NewTest, NewTest, RunTest 1, NewTest])))"
proof -
  have ne: "[[(''test_id'', Num 7)], [(''test_id'', Num 9)]] \<noteq> ([] :: jsobject list)"
    by simp
  have up: "map Suc [0..<length [[(''test_id'', Num 7)], [(''test_id'', Num 9 :: jsval)]]] = [1, 2]"
    by (simp add: upt_rec)
  show ?thesis
    using local_ids_unique [of example_state "[[(''test_id'', Num 7)], [(''test_id'', Num 9)]]"
        "[]" "Str ''tok''"
        "[CreateValidation, CreateValidationSettled (RespOk [(''validation_id'', Str ''v1'')]),
          NewTest, NewTest, RunTest 1, NewTest]"] ne up
    by simp
qed

section \<open>The artifact inputs once a validation exists\<close>

lemma artifact_input_names: "map input_name (artifact_inputs st) = artifact_names"
  by (simp add: artifact_inputs_def artifact_labels_def artifact_names_def FileInput_def)

lemma artifact_inputs_disabled:
  "list_all (\<lambda>v. button_disabled v = truthy (validationId st)
                \<and> input_disabled v = truthy (validationId st)) (artifact_inputs st)"
  by (simp add: artifact_inputs_def artifact_labels_def FileInput_def)

lemma no_file_input_enabled: "truthy (validationId st) \<Longrightarrow> \<not> file_input_enabled st n"
  by (simp add: file_input_enabled_def artifact_inputs_def artifact_labels_def FileInput_def)

lemma create_disabled: "truthy (validationId st) \<Longrightarrow> create_button_disabled st"
  by (simp add: create_button_disabled_def js_or_def)

lemma files_kept:
  "files (fst (handleCreateValidation_start st)) = files st"
  "files (handleCreateValidation_settle st resp) = files st"
  "files (fst (handleLoadValidation_start st)) = files st"
  "files (handleLoadValidation_settle st vresp tresp) = files st"
  "files (addCustomTest st) = files st"
  "files (handleTestTitleChange st testId v) = files st"
  "files (handleTestDescriptionChange st testId v) = files st"
  "files (fst (handleTestSubmit_start st testId fu)) = files st"
  "files (fst (onSubmitFollowUp_start st testId fu)) = files st"
  "files (handleTestSubmit_settle st testId r) = files st"
  "files (removeCustomTest st testId) = files st"
  "files (fst (confirmDelete_start st)) = files st"
  "files (confirmDelete_settle st tid same dresp) = files st"
  "files (fst (handleGenerateReport_start st)) = files st"
  "files (handleGenerateReport_settle st gresp) = files st"
  by (simp_all add: handleCreateValidation_start_def handleCreateValidation_settle_def
        handleLoadValidation_start_def handleLoadValidation_settle_def load_failed_def Let_def
        addCustomTest_def handleTestTitleChange_def handleTestDescriptionChange_def
        handleTestSubmit_start_def onSubmitFollowUp_start_def handleTestSubmit_settle_def
        removeCustomTest_def confirmDelete_start_def confirmDelete_settle_def
        handleDeleteTest_settle_def handleGenerateReport_start_def
        handleGenerateReport_settle_def
        split: sum.split option.split fetched.split)

lemma files_step: "truthy (validationId st) \<Longrightarrow> files (step st ev) = files st"
  by (cases ev) (simp_all add: no_file_input_enabled files_kept split: option.split)

lemma files_run:
  "list_all (\<lambda>s. truthy (validationId s)) (visited st evs) \<Longrightarrow> files (run st evs) = files st"
  unfolding run_def
proof (induction evs arbitrary: st)
  case Nil
  show ?case by simp
next
  case (Cons ev evs)
  then have here: "truthy (validationId st)"
    and later: "list_all (\<lambda>s. truthy (validationId s)) (visited (step st ev) evs)"
    by simp_all
  have "files (foldl step (step st ev) evs) = files (step st ev)"
    by (rule Cons.IH [OF later])
  with files_step [OF here, of ev] show ?case by simp
qed

text \<open>
  Claim C3, as the code has it. In a state in which a validation exists (\<^verbatim>\<open>validationId\<close>
  is set to a truthy value) the form shows the five artifact inputs with both controls of each
  disabled, and the submit button of the form is disabled. An attempt to choose a file or to
  submit the form leaves the state as it is, and no event at all changes the selected files. So
  through a session the selected files stay what they were for as long as
  \<^verbatim>\<open>validationId\<close> stays set; the component assigns it from the answer of every load.
\<close>

theorem artifact_inputs_locked:
  assumes "truthy (validationId st)"
  shows "map input_name (artifact_inputs st)
           = [''documentation'', ''trainingScript'', ''trainedModel'', ''trainingDataset'',
              ''testDataset'']
       \<and> list_all (\<lambda>v. button_disabled v \<and> input_disabled v) (artifact_inputs st)
       \<and> create_button_disabled st
       \<and> step st (FileChange n fileList) = st
       \<and> step st CreateValidation = st
       \<and> files (step st ev) = files st
       \<and> (list_all (\<lambda>s. truthy (validationId s)) (visited st evs) \<longrightarrow>
            files (run st evs) = files st)"
proof -
  have "list_all (\<lambda>v. button_disabled v \<and> input_disabled v) (artifact_inputs st)"
    using artifact_inputs_disabled [of st] assms by (simp add: list_all_iff)
  moreover have "step st (FileChange n fileList) = st"
    by (simp add: no_file_input_enabled [OF assms])
  moreover have "step st CreateValidation = st"
    by (simp add: create_disabled [OF assms])
  ultimately show ?thesis
    using artifact_input_names [of st] create_disabled [OF assms] files_step [OF assms, of ev]
      files_run [of st evs]
    by (simp add: artifact_names_def)
qed

theorem artifact_inputs_locked_witness:
  "truthy (validationId example_state)
   \<and> list_all (\<lambda>s. truthy (validationId s))
        (visited example_state [FileChange ''documentation'' [''other.md''], CreateValidation, NewTest])
   \<and> list_all (\<lambda>v. button_disabled v \<and> input_disabled v) (artifact_inputs example_state)
   \<and> step example_state (FileChange ''documentation'' [''other.md'']) = example_state
   \<and> files (run example_state [FileChange ''documentation'' [''other.md''], CreateValidation, NewTest])
       = files example_state"
proof -
  have a: "step example_state (FileChange ''documentation'' [''other.md'']) = example_state"
    by (simp add: no_file_input_enabled [OF example_has_validation])
  have b: "step example_state CreateValidation = example_state"
    by (simp add: create_disabled [OF example_has_validation])
  have c: "validationId (step example_state NewTest) = Str ''v1''"
    by (simp add: new_test_button_shown_def addCustomTest_def Let_def example_validationId)
  have v: "list_all (\<lambda>s. truthy (validationId s))
        (visited example_state [FileChange ''documentation'' [''other.md''], CreateValidation, NewTest])"
    by (simp add: a b c example_validationId del: step.simps)
  show ?thesis
    using artifact_inputs_locked [OF example_has_validation,
        of "''documentation''" "[''other.md'']" NewTest
           "[FileChange ''documentation'' [''other.md''], CreateValidation, NewTest]"] v
      example_has_validation
    by (simp del: step.simps visited.simps)
qed

text \<open>
  Claim C3 as it is stated fails: the inputs do not stay disabled, and the artifacts shown do
  not stay the same, for the remainder of a session. The load dialog is open to a session that
  has a validation. From the example, loading another validation replaces the identifier and
  the file names shown while the tests of the first validation stay; and after a load whose
  answer carries no \<^verbatim>\<open>validation_id\<close> the documentation input is enabled and choosing a
  file changes the selected files.
\<close>

theorem artifact_inputs_unlocked_counterexample:
  "truthy (validationId example_state)
   \<and> fileNames example_state = no_fileNames
   \<and> validationId (run example_state load_other) = Str ''v2''
   \<and> fileNames (run example_state load_other) = Obj [(''documentation'', Str ''other.md'')]
   \<and> customTests (run example_state load_other) = example_tests
   \<and> validationId (run example_state load_unnamed) = Undefined
   \<and> file_input_enabled (run example_state load_unnamed) ''documentation''
   \<and> files example_state
       = [(''documentation'', None), (''trainingScript'', None), (''trainedModel'', None),
          (''trainingDataset'', None), (''testDataset'', None)]
   \<and> files (run example_state (load_unnamed @ [FileChange ''documentation'' [''new.md'']]))
       = [(''documentation'', Some ''new.md''), (''trainingScript'', None), (''trainedModel'', None),
          (''trainingDataset'', None), (''testDataset'', None)]"
proof -
  have other: "run example_state load_other
      = example_state\<lparr>showLoadDialog := True, loadValidationId := ''v2'', form_error := [],
          validationId := Str ''v2'', executionId := Str ''e2'',
          fileNames := Obj [(''documentation'', Str ''other.md'')],
          status := ''Validation loaded successfully'', showLoadForm := False,
          isCreating := False\<rparr>"
    by (simp add: run_def load_other_def other_validation_def load_button_disabled_def
          handleLoadValidation_start_def handleLoadValidation_settle_def await_json_def
          get_prop_def js_or_def Let_def example_state_def initial_state_def)
  have unnamed: "run example_state load_unnamed
      = example_state\<lparr>showLoadDialog := True, loadValidationId := ''v2'', form_error := [],
          validationId := Undefined, executionId := Str ''e2'',
          fileNames := no_fileNames,
          status := ''Validation loaded successfully'', showLoadForm := False,
          isCreating := False\<rparr>"
    by (simp add: run_def load_unnamed_def load_button_disabled_def
          handleLoadValidation_start_def handleLoadValidation_settle_def await_json_def
          get_prop_def js_or_def Let_def example_state_def initial_state_def)
  have enabled: "file_input_enabled (run example_state load_unnamed) ''documentation''"
    by (simp add: unnamed file_input_enabled_def artifact_inputs_def artifact_labels_def
          FileInput_def)
  have "run example_state (load_unnamed @ [FileChange ''documentation'' [''new.md'']])
          = step (run example_state load_unnamed) (FileChange ''documentation'' [''new.md''])"
    by (simp add: run_def)
  then have changed:
    "files (run example_state (load_unnamed @ [FileChange ''documentation'' [''new.md'']]))
       = obj_set (files example_state) ''documentation'' (Some ''new.md'')"
    using enabled by (simp add: handleFileChange_def unnamed)
  have start: "files example_state
       = [(''documentation'', None), (''trainingScript'', None), (''trainedModel'', None),
          (''trainingDataset'', None), (''testDataset'', None)]"
    "fileNames example_state = no_fileNames"
    by (simp_all add: example_state_def initial_state_def)
  show ?thesis
    using enabled example_has_validation
    by (simp add: changed start other) (simp add: unnamed example_customTests)
qed

section \<open>Loading a validation\<close>

lemma load_twice:
  "handleLoadValidation (handleLoadValidation st vresp tresp) vresp tresp
     = handleLoadValidation st vresp tresp"
  by (simp add: handleLoadValidation_def handleLoadValidation_start_def
        handleLoadValidation_settle_def load_failed_def Let_def split: sum.split)

lemma load_requests:
  "snd (handleLoadValidation_start (handleLoadValidation st vresp tresp))
     = snd (handleLoadValidation_start st)"
  "tests_request (handleLoadValidation st vresp tresp) = tests_request st"
  by (simp_all add: handleLoadValidation_def handleLoadValidation_start_def
        handleLoadValidation_settle_def load_failed_def tests_request_def Let_def
        split: sum.split)

lemma load_success:
  "tests \<noteq> [] \<Longrightarrow>
   customTests (handleLoadValidation st (RespOk v) (RespOk tests)) = loadedTests tests"
  "customTests (handleLoadValidation st (RespOk v) (RespOk [])) = customTests st"
  "validationId (handleLoadValidation st (RespOk v) (RespOk tests)) = get_prop v ''validation_id''"
  "executionId (handleLoadValidation st (RespOk v) (RespOk tests)) = get_prop v ''execution_id''"
  "fileNames (handleLoadValidation st (RespOk v) (RespOk tests))
     = js_or (get_prop v ''files'') no_fileNames"
  by (simp_all add: handleLoadValidation_def handleLoadValidation_start_def
        handleLoadValidation_settle_def await_json_def Let_def)

lemma loadedTests_nth:
  "i < length tests \<Longrightarrow> loadedTests tests ! i = load_test i (tests ! i)"
  by (simp add: loadedTests_def nth_enumerate_eq)

text \<open>
  Claim C4, as the code has it. A load is a function of the state and the two answers, and
  repeating it with the same answers gives the same state and sends the same requests. When the
  answers are ok and there are stored tests, the tests shown are the stored tests in their
  order, the one at index \<open>i\<close> with local identifier \<open>i + 1\<close>, its stored \<^verbatim>\<open>test_id\<close>,
  and for title, description, prompt, results, code and conversation the stored value when
  that is truthy and otherwise the default: \<^verbatim>\<open>Test <test_id>\<close> for the title, the empty
  string, the empty list, and a conversation without messages. When there are no stored tests
  the tests shown stay as they were.
\<close>

theorem load_validation_snapshot:
  "handleLoadValidation (handleLoadValidation st vresp tresp) vresp tresp
     = handleLoadValidation st vresp tresp
   \<and> validationId (handleLoadValidation st (RespOk v) (RespOk tests)) = get_prop v ''validation_id''
   \<and> executionId (handleLoadValidation st (RespOk v) (RespOk tests)) = get_prop v ''execution_id''
   \<and> fileNames (handleLoadValidation st (RespOk v) (RespOk tests))
       = (if truthy (get_prop v ''files'') then get_prop v ''files'' else no_fileNames)
   \<and> customTests (handleLoadValidation st (RespOk v) (RespOk [])) = customTests st
   \<and> (tests \<noteq> [] \<longrightarrow>
        length (customTests (handleLoadValidation st (RespOk v) (RespOk tests))) = length tests)
   \<and> (i < length tests \<longrightarrow>
        customTests (handleLoadValidation st (RespOk v) (RespOk tests)) ! i
          = \<lparr> local_id = i + 1,
              test_id = get_prop (tests ! i) ''test_id'',
              title = (if truthy (get_prop (tests ! i) ''title'') then get_prop (tests ! i) ''title''
                       else Str (''Test '' @ js_to_string (get_prop (tests ! i) ''test_id''))),
              description = (if truthy (get_prop (tests ! i) ''description'')
                             then get_prop (tests ! i) ''description'' else Str []),
              prompt = (if truthy (get_prop (tests ! i) ''prompt'')
                        then get_prop (tests ! i) ''prompt'' else Str []),
              results = (if truthy (get_prop (tests ! i) ''results'')
                         then get_prop (tests ! i) ''results'' else Arr []),
              testCode = (if truthy (get_prop (tests ! i) ''code'')
                          then get_prop (tests ! i) ''code'' else Str []),
              conversation = (if truthy (get_prop (tests ! i) ''conversation'')
                              then get_prop (tests ! i) ''conversation''
                              else Obj [(''messages'', Arr [])]),
              isProcessing = False,
              error = Str [] \<rparr>)"
proof -
  have len: "tests \<noteq> [] \<longrightarrow>
        length (customTests (handleLoadValidation st (RespOk v) (RespOk tests))) = length tests"
    by (simp add: load_success loadedTests_def)
  have nth: "i < length tests \<longrightarrow>
        customTests (handleLoadValidation st (RespOk v) (RespOk tests)) ! i
          = load_test i (tests ! i)"
  proof
    assume i: "i < length tests"
    then have "tests \<noteq> []" by auto
    then show "customTests (handleLoadValidation st (RespOk v) (RespOk tests)) ! i
                 = load_test i (tests ! i)"
      using i by (simp add: load_success loadedTests_nth)
  qed
  show ?thesis
    using len nth
    by (simp add: load_twice load_success load_test_def js_or_def)
qed

theorem load_validation_snapshot_witness:
  "[stored_untitled] \<noteq> []
   \<and> 0 < length [stored_untitled]
   \<and> length (customTests (handleLoadValidation example_state (RespOk stored_validation)
                (RespOk [stored_untitled]))) = 1
   \<and> customTests (handleLoadValidation example_state (RespOk stored_validation)
                (RespOk [stored_untitled])) ! 0
       = \<lparr> local_id = 1, test_id = Num 7, title = Str ''Test 7'',
           description = Str ''compare distributions'', prompt = Str ''p'', results = Arr [],
           testCode = Str ''print(1)'', conversation = Obj [(''messages'', Arr [])],
           isProcessing = False, error = Str [] \<rparr>"
proof -
  have fields: "get_prop stored_untitled ''test_id'' = Num 7"
    "get_prop stored_untitled ''title'' = Str []"
    "get_prop stored_untitled ''description'' = Str ''compare distributions''"
    "get_prop stored_untitled ''prompt'' = Str ''p''"
    "get_prop stored_untitled ''results'' = Arr []"
    "get_prop stored_untitled ''code'' = Str ''print(1)''"
    "get_prop stored_untitled ''conversation'' = Obj [(''messages'', Arr [])]"
    by (simp_all add: stored_untitled_def get_prop_def)
  show ?thesis
    using load_validation_snapshot [of example_state "RespOk stored_validation"
        "RespOk [stored_untitled]" stored_validation "[stored_untitled]" 0]
    by (simp add: fields digit_char_def)
qed

text \<open>
  Claim C4 as it is stated fails: the stored test of the example has the empty string as its
  title, and the test shown after the load has the title \<^verbatim>\<open>Test 7\<close>.
\<close>

theorem load_validation_counterexample:
  "get_prop stored_untitled ''title'' = Str []
   \<and> title (customTests (handleLoadValidation example_state (RespOk stored_validation)
               (RespOk [stored_untitled])) ! 0) = Str ''Test 7''"
  by (simp add: handleLoadValidation_def handleLoadValidation_start_def
        handleLoadValidation_settle_def await_json_def Let_def loadedTests_def load_test_def
        stored_untitled_def get_prop_def js_or_def digit_char_def)

section \<open>Deleting a saved test\<close>

lemma filter_only_one:
  "filter (\<lambda>u. f u = f t) xs = [t] \<Longrightarrow> filter (\<lambda>u. f u \<noteq> f t) xs = remove1 t xs"
proof (induction xs)
  case Nil
  then show ?case by simp
next
  case (Cons y ys)
  show ?case
  proof (cases "f y = f t")
    case True
    with Cons.prems have y: "y = t" and none: "filter (\<lambda>u. f u = f t) ys = []" by simp_all
    from none have "filter (\<lambda>u. f u \<noteq> f t) ys = ys"
      by (simp add: filter_empty_conv)
    with y show ?thesis by simp
  next
    case False
    with Cons.prems have "filter (\<lambda>u. f u = f t) ys = [t]" by simp
    then have "filter (\<lambda>u. f u \<noteq> f t) ys = remove1 t ys" by (rule Cons.IH)
    with False show ?thesis by auto
  qed
qed

lemma strict_equal_primitive: "primitive b \<Longrightarrow> strict_equal a b same = (a = b)"
  by (simp add: strict_equal_def)

lemma strict_equal_object:
  "\<not> primitive b \<Longrightarrow> strict_equal a b same = (same \<and> a = b)"
  by (cases a) (auto simp: strict_equal_def)

lemma delete_settled:
  "customTests (handleDeleteTest_settle st testId same (RespOk ()))
     = filter (\<lambda>t. \<not> strict_equal (test_id t) testId (local_id t \<in> set same)) (customTests st)"
  "status (handleDeleteTest_settle st testId same (RespOk ())) = ''Test deleted successfully''"
  "form_error (handleDeleteTest_settle st testId same (RespOk ())) = form_error st"
  "customTests (handleDeleteTest_settle st testId same (RespNotOk code)) = customTests st"
  "form_error (handleDeleteTest_settle st testId same (RespNotOk code))
     = ''Error deleting test: HTTP error! status: '' @ string_of_nat code"
  "customTests (handleDeleteTest_settle st testId same (Rejected e)) = customTests st"
  "form_error (handleDeleteTest_settle st testId same (Rejected e))
     = ''Error deleting test: '' @ js_to_string e"
  by (simp_all add: handleDeleteTest_settle_def await_json_def http_error_def)

text \<open>
  With identifiers that are arrays, deleting the first test of \<open>array_id_tests\<close> removes
  that test alone: the second test holds another array, and the third a string.
\<close>

lemma delete_array_id:
  "map local_id (customTests (handleDeleteTest_settle (example_state\<lparr>customTests := array_id_tests\<rparr>)
      (Arr [Num 1]) [1] (RespOk ()))) = [2, 3]"
  by (simp add: handleDeleteTest_settle_def await_json_def array_id_tests_def strict_equal_def)

text \<open>
  Claim C8, as the code has it. Confirming the deletion of a saved test (one with an identifier
  of the back end) sends \<^verbatim>\<open>DELETE /test/{validation_id}/{test_id}\<close>. When the response is
  ok the status reports the deletion and the tests shown are the earlier ones, unchanged and in
  their order, without those whose \<^verbatim>\<open>test_id\<close> is strictly equal to the one deleted: for
  a number or a string every test that has this \<^verbatim>\<open>test_id\<close>, which is that one test when
  no other test shown has it; for an array or an object the tests that hold the very object.
  When the response is not ok, or the request throws, the tests shown are unchanged and the
  error message of the form is set.
\<close>

theorem delete_saved_test:
  "(testToDelete st = Some target \<and> truthy (test_id target) \<longrightarrow>
      confirmDelete_start st
        = (st, Some \<lparr> http_method = ''DELETE'',
                       url = ''/test/'' @ js_to_string (validationId st) @ ''/''
                               @ js_to_string (test_id target),
                       headers = [bearer (token st)], body = None \<rparr>))
   \<and> (primitive testId \<longrightarrow>
        customTests (confirmDelete_settle st testId same (RespOk ()))
          = filter (\<lambda>t. test_id t \<noteq> testId) (customTests st))
   \<and> (\<not> primitive testId \<longrightarrow>
        customTests (confirmDelete_settle st testId same (RespOk ()))
          = filter (\<lambda>t. \<not> (local_id t \<in> set same \<and> test_id t = testId)) (customTests st))
   \<and> (primitive (test_id t) \<and> filter (\<lambda>u. test_id u = test_id t) (customTests st) = [t] \<longrightarrow>
        customTests (confirmDelete_settle st (test_id t) same (RespOk ())) = remove1 t (customTests st))
   \<and> status (confirmDelete_settle st testId same (RespOk ())) = ''Test deleted successfully''
   \<and> form_error (confirmDelete_settle st testId same (RespOk ())) = form_error st
   \<and> customTests (confirmDelete_settle st testId same (RespNotOk code)) = customTests st
   \<and> form_error (confirmDelete_settle st testId same (RespNotOk code))
       = ''Error deleting test: HTTP error! status: '' @ string_of_nat code
   \<and> customTests (confirmDelete_settle st testId same (Rejected e)) = customTests st
   \<and> form_error (confirmDelete_settle st testId same (Rejected e))
       = ''Error deleting test: '' @ js_to_string e"
proof -
  have req: "testToDelete st = Some target \<and> truthy (test_id target) \<longrightarrow>
      confirmDelete_start st
        = (st, Some \<lparr> http_method = ''DELETE'',
                       url = ''/test/'' @ js_to_string (validationId st) @ ''/''
                               @ js_to_string (test_id target),
                       headers = [bearer (token st)], body = None \<rparr>)"
    by (simp add: confirmDelete_start_def handleDeleteTest_request_def)
  have prim: "\<And>tid. primitive tid \<longrightarrow>
        customTests (confirmDelete_settle st tid same (RespOk ()))
          = filter (\<lambda>t. test_id t \<noteq> tid) (customTests st)"
    by (simp add: confirmDelete_settle_def delete_settled strict_equal_primitive)
  have obj: "\<not> primitive testId \<longrightarrow>
        customTests (confirmDelete_settle st testId same (RespOk ()))
          = filter (\<lambda>t. \<not> (local_id t \<in> set same \<and> test_id t = testId)) (customTests st)"
    by (simp add: confirmDelete_settle_def delete_settled strict_equal_object)
  have one: "primitive (test_id t) \<and> filter (\<lambda>u. test_id u = test_id t) (customTests st) = [t] \<longrightarrow>
        customTests (confirmDelete_settle st (test_id t) same (RespOk ())) = remove1 t (customTests st)"
    using prim [of "test_id t"] by (simp add: filter_only_one)
  show ?thesis
    using req prim [of testId] obj one by (simp add: confirmDelete_settle_def delete_settled)
qed

theorem delete_saved_test_witness:
  "testToDelete deleting_state = Some (example_tests ! 1) \<and> truthy (test_id (example_tests ! 1))
   \<and> primitive (test_id (example_tests ! 1))
   \<and> filter (\<lambda>u. test_id u = test_id (example_tests ! 1)) (customTests deleting_state)
       = [example_tests ! 1]
   \<and> \<not> primitive (Arr [Num 1])
   \<and> snd (confirmDelete_start deleting_state)
       = Some \<lparr> http_method = ''DELETE'', url = ''/test/v1/7'',
                headers = [(''Authorization'', ''Bearer tok'')], body = None \<rparr>
   \<and> customTests (confirmDelete_settle deleting_state (Num 7) [2] (RespOk ())) = [example_tests ! 0]
   \<and> customTests (confirmDelete_settle deleting_state (Arr [Num 1]) [2] (RespOk ())) = example_tests
   \<and> customTests (confirmDelete_settle deleting_state (Num 7) [2] (RespNotOk 404))
       = customTests deleting_state
   \<and> form_error (confirmDelete_settle deleting_state (Num 7) [2] (RespNotOk 404))
       = ''Error deleting test: HTTP error! status: 404''"
proof -
  have target: "testToDelete deleting_state = Some (example_tests ! 1)"
    by (simp add: deleting_state_def)
  have saved: "test_id (example_tests ! 1) = Num 7"
    by (simp add: example_tests_def)
  have tests: "customTests deleting_state = example_tests"
    by (simp add: deleting_state_def example_customTests)
  have texts: "js_to_string (validationId deleting_state) = ''v1''"
    "js_to_string (Num 7) = ''7''" "bearer (token deleting_state) = (''Authorization'', ''Bearer tok'')"
    "string_of_nat 404 = ''404''"
    by (simp_all add: deleting_state_def example_validationId example_token bearer_def
          digit_char_def)
  show ?thesis
    using delete_saved_test [of deleting_state "example_tests ! 1" "Num 7" "[2]"
        "example_tests ! 1" 404]
      delete_saved_test [of deleting_state "example_tests ! 1" "Arr [Num 1]" "[2]"
        "example_tests ! 1" 404]
      target saved
    by (simp add: tests texts example_tests_def digit_char_def)
qed

lemma loaded_two: "loadedTests [stored_one, stored_three]
   = [\<lparr> local_id = 1, test_id = Num 1, title = Str ''Backtest'',
         description = Str ''compare to history'', prompt = Str [], results = Arr [],
         testCode = Str [], conversation = Obj [(''messages'', Arr [])],
         isProcessing = False, error = Str [] \<rparr>,
      \<lparr> local_id = 2, test_id = Num 3, title = Str ''Stability'',
         description = Str ''compare over time'', prompt = Str [], results = Arr [],
         testCode = Str [], conversation = Obj [(''messages'', Arr [])],
         isProcessing = False, error = Str [] \<rparr>]"
  by (simp add: loadedTests_def load_test_def stored_one_def stored_three_def get_prop_def
        js_or_def)

text \<open>
  Claim C8 as it is stated fails: a deletion can remove another test with it. The validation
  of the example is loaded with its stored tests 1 and 3, a new test gets the local identifier
  3, its request carries that number as \<^verbatim>\<open>test_id\<close> and the answer returns it, so two
  tests shown have the \<^verbatim>\<open>test_id\<close> 3. Deleting the new test removes the stored test
  with it.
\<close>

theorem delete_removes_sibling_counterexample:
  "snd (handleTestSubmit_start (run example_state (take 6 third_test_session)) 3 Null)
     = Some \<lparr> http_method = ''POST'', url = ''/execute-test'',
              headers = [(''Content-Type'', ''application/json''), (''Authorization'', ''Bearer tok'')],
              body = Some [(''validation_id'', Str ''v1''), (''test_id'', Num 3),
                           (''description'', Str ''check AUC'')] \<rparr>
   \<and> map (\<lambda>t. (local_id t, test_id t, title t)) (customTests (run example_state third_test_session))
     = [(1, Num 1, Str ''Backtest''), (2, Num 3, Str ''Stability''),
        (3, Num 3, Str ''Custom Test 3'')]
   \<and> map (\<lambda>t. (local_id t, test_id t, title t))
         (customTests (run example_state (third_test_session @ delete_third)))
     = [(1, Num 1, Str ''Backtest'')]"
  by (simp add: run_def third_test_session_def delete_third_def load_button_disabled_def
        handleLoadValidation_start_def handleLoadValidation_settle_def await_json_def
        Let_def stored_validation_def get_prop_def js_or_def example_state_def
        initial_state_def max_id_def loaded_two new_test_button_shown_def addCustomTest_def
        handleTestDescriptionChange_def find_test_def run_test_disabled_def
        handleTestSubmit_start_def mark_processing_def handleTestSubmit_settle_def
        store_result_def answer_three_def removeCustomTest_def confirmDelete_start_def
        confirmDelete_settle_def handleDeleteTest_settle_def strict_equal_def digit_char_def
        execute_request_def requestBody_def stringify_members_def bearer_def)

section \<open>Submissions while a request is in flight\<close>

lemma find_marked:
  "find_test ts testId = Some t \<Longrightarrow>
   find_test (mark_processing testId ts) testId = Some (t\<lparr>isProcessing := True, error := Str []\<rparr>)"
  unfolding find_test_def mark_processing_def
  by (induction ts) (auto split: if_splits)

lemma find_set_processing:
  "find_test ts testId = Some t \<Longrightarrow>
   find_test (set_processing testId ts) testId = Some (t\<lparr>isProcessing := True\<rparr>)"
  unfolding find_test_def set_processing_def
  by (induction ts) (auto split: if_splits)

lemma find_none_set_processing:
  "find_test ts testId = None \<Longrightarrow> find_test (set_processing testId ts) testId = None"
  unfolding find_test_def set_processing_def
  by (induction ts) (auto split: if_splits)

lemma follow_up_marks:
  assumes "find_test (customTests st) testId = Some t"
  shows "\<exists>t'. find_test (customTests (fst (onSubmitFollowUp_start st testId fu))) testId = Some t'
              \<and> isProcessing t'"
proof (cases "truthy (validationId st)")
  case True
  with find_marked [OF find_set_processing [OF assms]] find_set_processing [OF assms]
  show ?thesis
    by (simp add: onSubmitFollowUp_start_def handleTestSubmit_start_def)
next
  case False
  with find_set_processing [OF assms] show ?thesis
    by (simp add: onSubmitFollowUp_start_def handleTestSubmit_start_def)
qed

lemma run_test_marks:
  assumes "find_test (customTests st) testId = Some t" and "truthy (validationId st)"
  shows "\<exists>t'. find_test (customTests (fst (handleTestSubmit_start st testId fu))) testId = Some t'
              \<and> isProcessing t'"
  using find_marked [OF assms(1)] assms
  by (simp add: handleTestSubmit_start_def)

text \<open>
  Claim C6, as the code has it. The Run Test button of a test is disabled while the
  \<^verbatim>\<open>isProcessing\<close> flag of the test is set, and the submit control and the text area of a
  follow-up form are disabled while the \<^verbatim>\<open>submitting\<close> flag of the form is set. A request
  that is sent for a test sets \<^verbatim>\<open>isProcessing\<close>, whether it starts from the Run Test button
  or from a follow-up, and \<^verbatim>\<open>handleSubmit\<close> sets \<^verbatim>\<open>submitting\<close> when it sends a
  follow-up, so once a follow-up has been sent both controls are disabled. The submit control
  of the follow-up form does not look at \<^verbatim>\<open>isProcessing\<close>.
\<close>

theorem controls_while_in_flight:
  "(isProcessing t \<longrightarrow> run_test_disabled t)
   \<and> (submitting c \<longrightarrow> follow_up_disabled c \<and> textarea_disabled c)
   \<and> follow_up_disabled c = (trim (followUpMessage c) = [] \<or> submitting c)
   \<and> (snd (handleSubmit_start c) \<noteq> None \<longrightarrow>
        submitting (fst (handleSubmit_start c)) \<and> follow_up_disabled (fst (handleSubmit_start c)))
   \<and> (find_test (customTests st) testId = Some t \<longrightarrow>
        (\<exists>t'. find_test (customTests (fst (onSubmitFollowUp_start st testId fu))) testId = Some t'
              \<and> isProcessing t' \<and> run_test_disabled t'))
   \<and> (find_test (customTests st) testId = Some t \<and> truthy (validationId st) \<longrightarrow>
        (\<exists>t'. find_test (customTests (fst (handleTestSubmit_start st testId fu))) testId = Some t'
              \<and> isProcessing t' \<and> run_test_disabled t'))"
proof -
  have a: "isProcessing t \<longrightarrow> run_test_disabled t"
    by (simp add: run_test_disabled_def)
  have b: "submitting c \<longrightarrow> follow_up_disabled c \<and> textarea_disabled c"
    by (simp add: follow_up_disabled_def textarea_disabled_def)
  have c: "follow_up_disabled c = (trim (followUpMessage c) = [] \<or> submitting c)"
    by (simp add: follow_up_disabled_def)
  have d: "snd (handleSubmit_start c) \<noteq> None \<longrightarrow>
        submitting (fst (handleSubmit_start c)) \<and> follow_up_disabled (fst (handleSubmit_start c))"
    by (simp add: handleSubmit_start_def follow_up_disabled_def)
  have e: "find_test (customTests st) testId = Some t \<longrightarrow>
        (\<exists>t'. find_test (customTests (fst (onSubmitFollowUp_start st testId fu))) testId = Some t'
              \<and> isProcessing t' \<and> run_test_disabled t')"
    using follow_up_marks [of st testId t fu] by (auto simp: run_test_disabled_def)
  have f: "find_test (customTests st) testId = Some t \<and> truthy (validationId st) \<longrightarrow>
        (\<exists>t'. find_test (customTests (fst (handleTestSubmit_start st testId fu))) testId = Some t'
              \<and> isProcessing t' \<and> run_test_disabled t')"
    using run_test_marks [of st testId t fu] by (auto simp: run_test_disabled_def)
  from a b c d e f show ?thesis by blast
qed

lemma submit_follow_up_sent:
  assumes "handleSubmit_start c = (c1, Some m)"
    and "onSubmitFollowUp_start st testId (Str m) = (st1, Some req)"
  shows "submit_follow_up st c testId resp
           = (handleTestSubmit_settle st1 testId resp, handleSubmit_settle c1 Fulfilled, Some req)"
  by (simp add: submit_follow_up_def assms onSubmitFollowUp_settle_def)

lemma trim_typed: "trim ''add a ROC plot'' = ''add a ROC plot''"
  by (simp add: trim_def is_space_def)

lemma running_test:
  "find_test (customTests running_state) 2 = Some ((example_tests ! 1)\<lparr>isProcessing := True\<rparr>)"
  "validationId running_state = Str ''v1''"
  "token running_state = Str ''tok''"
  by (simp_all add: running_state_def example_customTests example_validationId example_token
        example_tests_def find_test_def run_test_disabled_def handleTestSubmit_start_def
        mark_processing_def)

theorem controls_while_in_flight_witness:
  "find_test (customTests example_state) 1 = Some (example_tests ! 0)
   \<and> truthy (validationId example_state)
   \<and> snd (handleSubmit_start typed_follow_up) \<noteq> None
   \<and> submitting (fst (handleSubmit_start typed_follow_up))
   \<and> follow_up_disabled (fst (handleSubmit_start typed_follow_up))
   \<and> (\<exists>t'. find_test (customTests (fst (handleTestSubmit_start example_state 1 Null))) 1 = Some t'
           \<and> isProcessing t' \<and> run_test_disabled t')
   \<and> (\<exists>t'. find_test (customTests (fst (onSubmitFollowUp_start example_state 1 (Str ''x'')))) 1
             = Some t'
           \<and> isProcessing t' \<and> run_test_disabled t')"
proof -
  have sent: "snd (handleSubmit_start typed_follow_up) \<noteq> None"
    by (simp add: handleSubmit_start_def typed_follow_up_def trim_typed)
  show ?thesis
    using controls_while_in_flight [of "example_tests ! 0" "fst (handleSubmit_start typed_follow_up)"
        example_state 1 Null]
      controls_while_in_flight [of "example_tests ! 0" typed_follow_up example_state 1 "Str ''x''"]
      example_find_first example_has_validation sent
    by blast
qed

text \<open>
  Claim C6 as it is stated fails. In the example the Run Test button of the saved test is
  pressed. While that request is in flight the test is processing, its conversation with the
  follow-up form is shown, the submit control of the form is enabled for the message typed, and
  submitting the form sends a second request for the same test.
\<close>

theorem follow_up_during_run_counterexample:
  "find_test (customTests running_state) 2 = Some ((example_tests ! 1)\<lparr>isProcessing := True\<rparr>)
   \<and> isProcessing ((example_tests ! 1)\<lparr>isProcessing := True\<rparr>)
   \<and> conversation_shown ((example_tests ! 1)\<lparr>isProcessing := True\<rparr>)
   \<and> \<not> follow_up_disabled typed_follow_up
   \<and> snd (snd (submit_follow_up running_state typed_follow_up 2 (RespNotOk 500)))
       = Some \<lparr> http_method = ''POST'', url = ''/execute-test'',
                headers = [(''Content-Type'', ''application/json''),
                           (''Authorization'', ''Bearer tok'')],
                body = Some [(''validation_id'', Str ''v1''), (''test_id'', Num 7),
                             (''follow_up_message'', Str ''add a ROC plot'')] \<rparr>"
proof -
  have shown: "conversation_shown ((example_tests ! 1)\<lparr>isProcessing := True\<rparr>)"
    by (simp add: conversation_shown_def example_tests_def)
  have enabled: "\<not> follow_up_disabled typed_follow_up"
    by (simp add: follow_up_disabled_def typed_follow_up_def trim_typed)
  have start: "handleSubmit_start typed_follow_up
                 = (typed_follow_up\<lparr>submitting := True\<rparr>, Some ''add a ROC plot'')"
    by (simp add: handleSubmit_start_def typed_follow_up_def trim_typed)
  have found: "find_test (set_processing 2 (customTests running_state)) 2
                 = Some ((example_tests ! 1)\<lparr>isProcessing := True\<rparr>)"
    using find_set_processing [OF running_test(1)] by simp
  have req: "snd (onSubmitFollowUp_start running_state 2 (Str ''add a ROC plot''))
       = Some \<lparr> http_method = ''POST'', url = ''/execute-test'',
                headers = [(''Content-Type'', ''application/json''),
                           (''Authorization'', ''Bearer tok'')],
                body = Some [(''validation_id'', Str ''v1''), (''test_id'', Num 7),
                             (''follow_up_message'', Str ''add a ROC plot'')] \<rparr>"
    by (simp add: onSubmitFollowUp_start_def handleTestSubmit_start_def found running_test
          execute_request_def requestBody_def stringify_members_def js_or_def bearer_def
          example_tests_def)
  from req have "onSubmitFollowUp_start running_state 2 (Str ''add a ROC plot'')
      = (fst (onSubmitFollowUp_start running_state 2 (Str ''add a ROC plot'')),
         Some \<lparr> http_method = ''POST'', url = ''/execute-test'',
                headers = [(''Content-Type'', ''application/json''),
                           (''Authorization'', ''Bearer tok'')],
                body = Some [(''validation_id'', Str ''v1''), (''test_id'', Num 7),
                             (''follow_up_message'', Str ''add a ROC plot'')] \<rparr>)"
    by (metis prod.collapse)
  from submit_follow_up_sent [OF start this, of "RespNotOk 500"] shown enabled running_test(1)
  show ?thesis by simp
qed

section \<open>The follow-up message after a submission\<close>

lemma handleSubmit_alone:
  "trim (followUpMessage c) = [] \<Longrightarrow> handleSubmit_start c = (c, None)"
  "followUpMessage (handleSubmit_settle c Fulfilled) = []"
  "followUpMessage (handleSubmit_settle c (Thrown e)) = followUpMessage c"
  by (simp_all add: handleSubmit_start_def handleSubmit_settle_def)

lemma blank_follow_up:
  "trim (followUpMessage c) = [] \<Longrightarrow> submit_follow_up st c testId resp = (st, c, None)"
  by (simp add: submit_follow_up_def handleSubmit_start_def)

lemma follow_up_always_cleared:
  "trim (followUpMessage c) \<noteq> [] \<Longrightarrow>
   fst (snd (submit_follow_up st c testId resp)) = c\<lparr>followUpMessage := [], submitting := False\<rparr>"
  by (simp add: submit_follow_up_def handleSubmit_start_def handleSubmit_settle_def
        onSubmitFollowUp_settle_def split: prod.split option.split)

text \<open>
  Claim C10 at a failing request. The follow-up typed in the example is submitted for the saved
  test and the back end answers with status 500. The request was sent, the test shows the
  error, and the follow-up field is empty afterwards: the callback of the form component
  handles the error itself and its promise is fulfilled, so \<^verbatim>\<open>handleSubmit\<close> takes the
  submission for a success.
\<close>

theorem follow_up_cleared_after_failure:
  "snd (snd (submit_follow_up example_state typed_follow_up 2 (RespNotOk 500))) \<noteq> None
   \<and> fst (snd (submit_follow_up example_state typed_follow_up 2 (RespNotOk 500)))
       = \<lparr> followUpMessage = [], submitting = False \<rparr>
   \<and> map error (customTests (fst (submit_follow_up example_state typed_follow_up 2 (RespNotOk 500))))
       = [Str [], Str ''HTTP error! status: 500'']"
proof -
  have start: "handleSubmit_start typed_follow_up
                 = (typed_follow_up\<lparr>submitting := True\<rparr>, Some ''add a ROC plot'')"
    by (simp add: handleSubmit_start_def typed_follow_up_def trim_typed)
  have found: "find_test (set_processing 2 (customTests example_state)) 2
                 = Some ((example_tests ! 1)\<lparr>isProcessing := True\<rparr>)"
    by (simp add: example_customTests example_tests_def find_test_def set_processing_def)
  have begun: "onSubmitFollowUp_start example_state 2 (Str ''add a ROC plot'')
      = (example_state\<lparr>customTests := mark_processing 2 (set_processing 2 example_tests)\<rparr>,
         Some (execute_request (Str ''tok'')
                 (requestBody (Str ''v1'') ((example_tests ! 1)\<lparr>isProcessing := True\<rparr>) 2
                    (Str ''add a ROC plot''))))"
    using found
    by (simp add: onSubmitFollowUp_start_def handleTestSubmit_start_def example_customTests
          example_validationId example_token)
  have errors: "map error (store_error 2 (http_error 500)
                  (mark_processing 2 (set_processing 2 example_tests)))
                 = [Str [], Str ''HTTP error! status: 500'']"
    by (simp add: store_error_def mark_processing_def set_processing_def example_tests_def
          http_error_def digit_char_def)
  have "submit_follow_up example_state typed_follow_up 2 (RespNotOk 500)
      = (handleTestSubmit_settle
           (example_state\<lparr>customTests := mark_processing 2 (set_processing 2 example_tests)\<rparr>)
           2 (RespNotOk 500),
         handleSubmit_settle (typed_follow_up\<lparr>submitting := True\<rparr>) Fulfilled,
         Some (execute_request (Str ''tok'')
                 (requestBody (Str ''v1'') ((example_tests ! 1)\<lparr>isProcessing := True\<rparr>) 2
                    (Str ''add a ROC plot''))))"
    by (rule submit_follow_up_sent [OF start begun])
  then show ?thesis
    using errors
    by (simp add: handleTestSubmit_settle_def await_json_def handleSubmit_settle_def
          typed_follow_up_def)
qed

section \<open>The rendered prompt of a single test\<close>

lemma parsed_independent_test:
  "parse_template independent_test_template = Some
     [Lit ''If you have a model '', Var ''documentation'', Lit '' '', Var ''code'', Lit '' '',
      Var ''train'', Lit '' '', Var ''test'', Lit '' '', Var ''pickle'',
      Lit '', implement a Python test '', Var ''test_title'',
      Lit ('', '' @ [CHR 0x0A] @ ''described as ''), Var ''test_description'',
      Lit (''.'' @ [CHR 0x0A, CHR 0x0A] @
           ''I want you to generate a self contained Python script that will be executed using the exec function in another Python process. All the code has to be in one block and has to contain a call to execute the test.''
           @ [CHR 0x0A, CHR 0x0A] @ ''Please ensure the code meets the following criteria:''
           @ [CHR 0x0A, CHR 0x0A] @ ''1: The code should create the folder ''),
      Var ''test_folder'',
      Lit ('' to save all the outputs'' @ [CHR 0x0A] @
           ''2: Generate visualizations when possible and save them inside ''),
      Var ''test_folder'',
      Lit (''. Add titles to the axis and legends to all of them'' @ [CHR 0x0A] @
           ''3: Add all the generated images to the reports with proper explanation of them''
           @ [CHR 0x0A] @ ''4: Do proper error handling to not interrupt the execution''
           @ [CHR 0x0A] @
           ''5: Generate a report with Markdown called report.md, containing the results, visualizations and save it ''
           @ [CHR 0x0A] @ ''   inside ''),
      Var ''test_folder'',
      Lit (''. The report has to explain with detail what the test is doing'' @ [CHR 0x0A] @
           ''7: All the code should be inside one single snippet of Python code'' @ [CHR 0x0A] @
           ''8: All the code should be between ```python and ```'' @ [CHR 0x0A] @
           ''9: Never use ``` inside the code'' @ [CHR 0x0A] @
           ''10: Only print errors that have affected the execution, nothing else'' @ [CHR 0x0A] @
           ''11: If an error is caught, print the message'' @ [CHR 0x0A])]"
  by code_simp

lemma sub_here: "sublist x (x @ r)"
  by (rule sublist_append_rightI)

lemma sub_skip: "sublist x r \<Longrightarrow> sublist x (a @ r)"
proof -
  assume "sublist x r"
  then obtain ps ss where "r = ps @ x @ ss" by (auto simp: sublist_def)
  then have "a @ r = (a @ ps) @ x @ ss" by simp
  then show ?thesis unfolding sublist_def by blast
qed

lemma rendered_independent_test:
  assumes "vars ''documentation'' = Some d" and "vars ''code'' = Some c"
    and "vars ''train'' = Some tr" and "vars ''test'' = Some te" and "vars ''pickle'' = Some p"
    and "vars ''test_title'' = Some ti" and "vars ''test_description'' = Some de"
    and "vars ''test_folder'' = Some f"
  shows "render independent_test_template vars = Inr (
      (''If you have a model '' @ d @ '' '' @ c @ '' '' @ tr @ '' '' @ te @ '' '' @ p)
      @ '', ''
      @ (''implement a Python test '' @ ti @ '', '' @ [CHR 0x0A] @ ''described as '' @ de @ ''.'')
      @ ([CHR 0x0A, CHR 0x0A] @
         ''I want you to generate a self contained Python script that will be executed using the exec function in another Python process. All the code has to be in one block and has to contain a call to execute the test.''
         @ [CHR 0x0A, CHR 0x0A] @ ''Please ensure the code meets the following criteria:''
         @ [CHR 0x0A, CHR 0x0A])
      @ (''1: The code should create the folder '' @ f @ '' to save all the outputs'')
      @ ([CHR 0x0A] @ ''2: Generate visualizations when possible and '')
      @ (''save them inside '' @ f)
      @ (''. Add titles to the axis and legends to all of them'' @ [CHR 0x0A] @
         ''3: Add all the generated images to the reports with proper explanation of them''
         @ [CHR 0x0A])
      @ ''4: Do proper error handling to not interrupt the execution''
      @ [CHR 0x0A]
      @ (''5: Generate a report with Markdown called report.md, containing the results, visualizations and save it ''
         @ [CHR 0x0A] @ ''   inside '' @ f @ ''.'')
      @ ('' The report has to explain with detail what the test is doing'' @ [CHR 0x0A])
      @ ''7: All the code should be inside one single snippet of Python code''
      @ [CHR 0x0A]
      @ ''8: All the code should be between ```python and ```''
      @ [CHR 0x0A]
      @ ''9: Never use ``` inside the code''
      @ ([CHR 0x0A] @ ''10: Only print errors that have affected the execution, nothing else''
         @ [CHR 0x0A] @ ''11: If an error is caught, print the message'' @ [CHR 0x0A]))"
  by (simp add: render_def parsed_independent_test assms)

text \<open>
  Claim C7. Rendered with values for the documentation, the code, the three artifact paths,
  the title and description of the test and the test folder, the template gives a prompt that
  names the model and the test and contains these instructions: create the test folder to save
  all the outputs and save the visualizations inside it; handle errors so that the execution is
  not interrupted; write a Markdown report called \<^verbatim>\<open>report.md\<close> and save it inside the
  folder; put all the code in one single snippet, between \<^verbatim>\<open>```python\<close> and
  \<^verbatim>\<open>```\<close>, and never use \<^verbatim>\<open>```\<close> inside the code.
\<close>

theorem independent_test_prompt_instructions:
  assumes "vars ''documentation'' = Some d" and "vars ''code'' = Some c"
    and "vars ''train'' = Some tr" and "vars ''test'' = Some te" and "vars ''pickle'' = Some p"
    and "vars ''test_title'' = Some ti" and "vars ''test_description'' = Some de"
    and "vars ''test_folder'' = Some f"
  shows "\<exists>txt. render independent_test_template vars = Inr txt
     \<and> sublist (''If you have a model '' @ d @ '' '' @ c @ '' '' @ tr @ '' '' @ te @ '' '' @ p) txt
     \<and> sublist (''implement a Python test '' @ ti @ '', '' @ [CHR 0x0A] @ ''described as '' @ de @ ''.'') txt
     \<and> sublist (''1: The code should create the folder '' @ f @ '' to save all the outputs'') txt
     \<and> sublist (''save them inside '' @ f) txt
     \<and> sublist ''4: Do proper error handling to not interrupt the execution'' txt
     \<and> sublist (''5: Generate a report with Markdown called report.md, containing the results, visualizations and save it ''
                 @ [CHR 0x0A] @ ''   inside '' @ f @ ''.'') txt
     \<and> sublist ''7: All the code should be inside one single snippet of Python code'' txt
     \<and> sublist ''8: All the code should be between ```python and ```'' txt
     \<and> sublist ''9: Never use ``` inside the code'' txt"
  apply (rule exI)
  apply (rule conjI)
   apply (rule rendered_independent_test [OF assms])
  apply (intro conjI)
          apply (rule sub_here | rule sub_skip)+
  done

theorem independent_test_prompt_instructions_witness:
  "example_vars ''test_title'' = Some ''Backtest''
   \<and> example_vars ''test_folder'' = Some ''out/test_1''
   \<and> (\<exists>txt. render independent_test_template example_vars = Inr txt
          \<and> sublist (''1: The code should create the folder '' @ ''out/test_1''
                      @ '' to save all the outputs'') txt
          \<and> sublist ''4: Do proper error handling to not interrupt the execution'' txt
          \<and> sublist ''8: All the code should be between ```python and ```'' txt)"
proof -
  have v: "example_vars ''documentation'' = Some ''described as: predicts default risk''"
    "example_vars ''code'' = Some ''has been trained with this code: fit(X, y)''"
    "example_vars ''train'' = Some ''its training data found at train.csv''"
    "example_vars ''test'' = Some ''its test data found at test.csv''"
    "example_vars ''pickle'' = Some ''its trained model can be found at model.pkl''"
    "example_vars ''test_title'' = Some ''Backtest''"
    "example_vars ''test_description'' = Some ''Compare predictions to historical defaults''"
    "example_vars ''test_folder'' = Some ''out/test_1''"
    by (simp_all add: example_vars_def)
  from independent_test_prompt_instructions [OF v] v(6) v(8)
  show ?thesis by blast
qed

end
